theory Spec2Isabelle
  imports Main "HOL-Library.Word"
begin

unbundle bit_operations_syntax

section \<open>The native engine as seen from SQLiteWrapper.cpp\<close>

text \<open>
  SQLiteWrapper.cpp is a layer over the C interface of the SQL engine. The engine is not
  part of the repository, so it is a parameter of every definition below: a record of
  functions over an engine state \<open>'e\<close>, one field per native entry point the file calls.
  C \<open>int\<close> is a 32-bit word; an opaque handle (\<open>sqlite3*\<close>, \<open>sqlite3_stmt*\<close>) is a
  number. A \<open>const char*\<close> argument is the memory readable from that address on, as a
  list of bytes.
\<close>

type_synonym c_int = "32 word"
type_synonym handle = nat
type_synonym bytes = "char list"

text \<open>The constants of sqlite3.h that the file names.\<close>

definition SQLITE_OK :: c_int where "SQLITE_OK = 0"
definition SQLITE_ROW :: c_int where "SQLITE_ROW = 100"
definition SQLITE_DONE :: c_int where "SQLITE_DONE = 101"
definition SQLITE_NULL :: c_int where "SQLITE_NULL = 5"
definition SQLITE_UTF8 :: "8 word" where "SQLITE_UTF8 = 1"
definition SQLITE_PREPARE_PERSISTENT :: "32 word" where "SQLITE_PREPARE_PERSISTENT = 1"

text \<open>The destructor argument of the text binding: \<open>SQLITE_TRANSIENT\<close> asks the engine
  to copy the bytes before the call returns, \<open>SQLITE_STATIC\<close> promises they stay valid.\<close>

datatype destructor_type = SQLITE_STATIC | SQLITE_TRANSIENT

definition NUL :: char where "NUL = CHR 0x00"

record 'e sqlite3 =
  sqlite3_errstr :: "c_int \<Rightarrow> string"
  sqlite3_open_v2 :: "bytes \<Rightarrow> c_int \<Rightarrow> 'e \<Rightarrow> (c_int \<times> handle) \<times> 'e"
  sqlite3_extended_result_codes :: "handle \<Rightarrow> c_int \<Rightarrow> 'e \<Rightarrow> c_int \<times> 'e"
  sqlite3_last_insert_rowid :: "handle \<Rightarrow> 'e \<Rightarrow> 64 word"
  sqlite3_prepare_v3 ::
    "handle \<Rightarrow> bytes \<Rightarrow> c_int \<Rightarrow> 32 word \<Rightarrow> 'e \<Rightarrow> (c_int \<times> handle) \<times> 'e"
  sqlite3_step :: "handle \<Rightarrow> 'e \<Rightarrow> c_int \<times> 'e"
  sqlite3_reset :: "handle \<Rightarrow> 'e \<Rightarrow> c_int \<times> 'e"
  sqlite3_bind_null :: "handle \<Rightarrow> c_int \<Rightarrow> 'e \<Rightarrow> c_int \<times> 'e"
  sqlite3_bind_text64 ::
    "handle \<Rightarrow> c_int \<Rightarrow> bytes \<Rightarrow> nat \<Rightarrow> destructor_type \<Rightarrow> 8 word \<Rightarrow> 'e \<Rightarrow> c_int \<times> 'e"
  sqlite3_bind_int :: "handle \<Rightarrow> c_int \<Rightarrow> c_int \<Rightarrow> 'e \<Rightarrow> c_int \<times> 'e"
  sqlite3_bind_int64 :: "handle \<Rightarrow> c_int \<Rightarrow> 64 word \<Rightarrow> 'e \<Rightarrow> c_int \<times> 'e"
  sqlite3_column_type :: "handle \<Rightarrow> c_int \<Rightarrow> 'e \<Rightarrow> c_int \<times> 'e"
  sqlite3_column_text :: "handle \<Rightarrow> c_int \<Rightarrow> 'e \<Rightarrow> bytes option \<times> 'e"
  sqlite3_column_int :: "handle \<Rightarrow> c_int \<Rightarrow> 'e \<Rightarrow> c_int \<times> 'e"
  sqlite3_column_int64 :: "handle \<Rightarrow> c_int \<Rightarrow> 'e \<Rightarrow> 64 word \<times> 'e"

text \<open>
  The length given to \<open>sqlite3_bind_text64\<close> is a \<open>size_t\<close> passed as an unsigned 64-bit
  integer, which keeps its value: it is a \<open>nat\<close>. \<open>sqlite3_column_text\<close> returns a pointer:
  \<open>None\<close> is the null pointer, \<open>Some m\<close> the memory at the address returned.

  What the file does to the engine is the sequence of native calls it makes, with their
  arguments. The world threaded through every operation is the engine state, the calls
  made so far, and the function-local static counter of \<open>GetNextStatementId\<close>.
  The file itself never closes a connection or finalises a statement: the members that
  own the handles do, and they are declared in the header. The trace records written
  with \<open>AICLI_LOG\<close> are left out.
\<close>

datatype native_call =
    Call_open_v2 bytes c_int
  | Call_extended_result_codes handle c_int
  | Call_last_insert_rowid handle
  | Call_prepare_v3 handle bytes c_int "32 word"
  | Call_step handle
  | Call_reset handle
  | Call_bind_null handle c_int
  | Call_bind_text64 handle c_int bytes nat destructor_type "8 word"
  | Call_bind_int handle c_int c_int
  | Call_bind_int64 handle c_int "64 word"
  | Call_column_type handle c_int
  | Call_column_text handle c_int
  | Call_column_int handle c_int
  | Call_column_int64 handle c_int

record 'e world =
  engine :: 'e
  calls :: "native_call list"
  statementId :: "64 word"

definition native :: "native_call \<Rightarrow> ('e \<Rightarrow> 'r \<times> 'e) \<Rightarrow> 'e world \<Rightarrow> 'r \<times> 'e world" where
  "native c f w =
     (case f (engine w) of (r, e') \<Rightarrow> (r, w\<lparr>engine := e', calls := calls w @ [c]\<rparr>))"

section \<open>Failures\<close>

text \<open>
  \<open>THROW_SQLITE\<close> throws a \<open>SQLiteException\<close> built from the native status, with the
  engine's \<open>sqlite3_errstr\<close> text as its message; \<open>THROW_HR_IF\<close> throws an exception
  carrying an HRESULT; \<open>FAIL_FAST_MSG\<close> terminates the process. The \<open>assert\<close> of the
  Statement constructor is modelled as it behaves when assertions are compiled in.
  Constructing a \<open>std::string\<close> from a null pointer has no defined behaviour.
\<close>

datatype exn = SQLiteException c_int string | HResultException "32 word"

datatype failure = Thrown exn | FailFast string | AssertionFailed | UndefinedBehaviour

type_synonym 'a outcome = "failure + 'a"

definition E_UNEXPECTED :: "32 word" where "E_UNEXPECTED = 0x8000FFFF"

definition THROW_SQLITE :: "'e sqlite3 \<Rightarrow> c_int \<Rightarrow> failure" where
  "THROW_SQLITE api error = Thrown (SQLiteException error (sqlite3_errstr api error))"

definition THROW_IF_SQLITE_FAILED :: "'e sqlite3 \<Rightarrow> c_int \<Rightarrow> unit outcome" where
  "THROW_IF_SQLITE_FAILED api rv = (if rv \<noteq> SQLITE_OK then Inl (THROW_SQLITE api rv) else Inr ())"

definition GetNextStatementId :: "'e world \<Rightarrow> 64 word \<times> 'e world" where
  "GetNextStatementId w = (statementId w + 1, w\<lparr>statementId := statementId w + 1\<rparr>)"

section \<open>Connection\<close>

record Connection =
  m_dbconn :: handle

definition c_str :: "string \<Rightarrow> bytes" where
  "c_str s = s @ [NUL]"

text \<open>The constructor: the open flags are the bitwise or of the two enumerations' integer
  values. The \<open>sqlite3*\<close> written through the out parameter becomes \<open>m_dbconn\<close>.\<close>

definition Connection_ctor ::
  "'e sqlite3 \<Rightarrow> string \<Rightarrow> c_int \<Rightarrow> c_int \<Rightarrow> 'e world \<Rightarrow> Connection outcome \<times> 'e world" where
  "Connection_ctor api target disposition flags w =
     (let resultingFlags = disposition OR flags in
      case native (Call_open_v2 (c_str target) resultingFlags)
                  (sqlite3_open_v2 api (c_str target) resultingFlags) w of
        ((rv, db), w1) \<Rightarrow>
          (case THROW_IF_SQLITE_FAILED api rv of
             Inl f \<Rightarrow> (Inl f, w1)
           | Inr _ \<Rightarrow> (Inr \<lparr>m_dbconn = db\<rparr>, w1)))"

definition Connection_Create ::
  "'e sqlite3 \<Rightarrow> string \<Rightarrow> c_int \<Rightarrow> c_int \<Rightarrow> 'e world \<Rightarrow> Connection outcome \<times> 'e world" where
  "Connection_Create api target disposition flags w =
     (case Connection_ctor api target disposition flags w of
        (Inl f, w1) \<Rightarrow> (Inl f, w1)
      | (Inr result, w1) \<Rightarrow>
          (case native (Call_extended_result_codes (m_dbconn result) 1)
                       (sqlite3_extended_result_codes api (m_dbconn result) 1) w1 of
             (rv, w2) \<Rightarrow>
               (case THROW_IF_SQLITE_FAILED api rv of
                  Inl f \<Rightarrow> (Inl f, w2)
                | Inr _ \<Rightarrow> (Inr result, w2))))"

definition Connection_GetLastInsertRowID ::
  "'e sqlite3 \<Rightarrow> Connection \<Rightarrow> 'e world \<Rightarrow> 64 word \<times> 'e world" where
  "Connection_GetLastInsertRowID api this w =
     native (Call_last_insert_rowid (m_dbconn this))
            (\<lambda>e. (sqlite3_last_insert_rowid api (m_dbconn this) e, e)) w"

section \<open>Statement\<close>

text \<open>Modelled from the spec: the header SQLiteWrapper.h, which declares the members of
  \<open>Statement\<close> and the initial value of \<open>m_state\<close>, is not among the sources. The spec
  has a statement \<open>Prepared\<close> when it is created.\<close>

datatype State = Prepared | HasRow | Completed | Error

record Statement =
  m_id :: "64 word"
  m_stmt :: handle
  m_state :: State

text \<open>
  A \<open>std::string_view\<close> is a pointer and a size: \<open>sv_data\<close> is the memory readable from
  the pointer on, \<open>sv_size\<close> the size. The characters viewed are the first \<open>sv_size\<close>
  bytes of that memory.
\<close>

record string_view =
  sv_data :: bytes
  sv_size :: nat

definition sv_chars :: "string_view \<Rightarrow> string" where
  "sv_chars v = take (sv_size v) (sv_data v)"

text \<open>The view \<open>{ s.c_str(), s.size() }\<close> of a \<open>std::string\<close>, and the view a
  \<open>char const*\<close> converts to, whose size is that of \<open>strlen\<close>.\<close>

definition view_of_string :: "string \<Rightarrow> string_view" where
  "view_of_string s = \<lparr>sv_data = c_str s, sv_size = length s\<rparr>"

definition strlen :: "bytes \<Rightarrow> nat" where
  "strlen m = length (takeWhile (\<lambda>c. c \<noteq> NUL) m)"

definition view_of_c_string :: "bytes \<Rightarrow> string_view" where
  "view_of_c_string m = \<lparr>sv_data = m, sv_size = strlen m\<rparr>"

text \<open>
  The constructor. The assertion reads the byte at index \<open>size()\<close>; outside the memory
  of the view the read has no defined behaviour. The length passed to the engine is
  \<open>size() + 1\<close> converted to \<open>int\<close>.
\<close>

definition Statement_ctor ::
  "'e sqlite3 \<Rightarrow> Connection \<Rightarrow> string_view \<Rightarrow> bool \<Rightarrow> 'e world \<Rightarrow> Statement outcome \<times> 'e world" where
  "Statement_ctor api connection sql persistent w =
     (case GetNextStatementId w of
        (i, w1) \<Rightarrow>
          if \<not> sv_size sql < length (sv_data sql) then (Inl UndefinedBehaviour, w1)
          else if sv_data sql ! sv_size sql \<noteq> NUL then (Inl AssertionFailed, w1)
          else
            let nByte = (of_nat (sv_size sql + 1) :: c_int);
                prepFlags = (if persistent then SQLITE_PREPARE_PERSISTENT else 0)
            in case native (Call_prepare_v3 (m_dbconn connection) (sv_data sql) nByte prepFlags)
                     (sqlite3_prepare_v3 api (m_dbconn connection) (sv_data sql) nByte prepFlags) w1 of
                 ((rv, stmt), w2) \<Rightarrow>
                   (case THROW_IF_SQLITE_FAILED api rv of
                      Inl f \<Rightarrow> (Inl f, w2)
                    | Inr _ \<Rightarrow> (Inr \<lparr>m_id = i, m_stmt = stmt, m_state = Prepared\<rparr>, w2)))"

text \<open>The three overloads of \<open>Statement::Create\<close>: from a \<open>std::string\<close>, from a borrowed
  view (which copies the viewed characters into a \<open>std::string\<close> first), and from a
  \<open>char const*\<close>. A view larger than the memory behind it, and a \<open>char const*\<close> to
  memory without a null character, make the copy and \<open>strlen\<close> read out of bounds.\<close>

definition Statement_Create_string ::
  "'e sqlite3 \<Rightarrow> Connection \<Rightarrow> string \<Rightarrow> bool \<Rightarrow> 'e world \<Rightarrow> Statement outcome \<times> 'e world" where
  "Statement_Create_string api connection sql persistent w =
     Statement_ctor api connection (view_of_string sql) persistent w"

definition Statement_Create_view ::
  "'e sqlite3 \<Rightarrow> Connection \<Rightarrow> string_view \<Rightarrow> bool \<Rightarrow> 'e world \<Rightarrow> Statement outcome \<times> 'e world" where
  "Statement_Create_view api connection sql persistent w =
     (if length (sv_data sql) < sv_size sql then (Inl UndefinedBehaviour, w)
      else Statement_Create_string api connection (sv_chars sql) persistent w)"

definition Statement_Create_literal ::
  "'e sqlite3 \<Rightarrow> Connection \<Rightarrow> bytes \<Rightarrow> bool \<Rightarrow> 'e world \<Rightarrow> Statement outcome \<times> 'e world" where
  "Statement_Create_literal api connection sql persistent w =
     (if NUL \<notin> set sql then (Inl UndefinedBehaviour, w)
      else Statement_ctor api connection (view_of_c_string sql) persistent w)"

text \<open>\<open>Step\<close> changes the statement, also when it fails: the result is the outcome, the
  statement after the call, and the world.\<close>

definition Statement_Step ::
  "'e sqlite3 \<Rightarrow> Statement \<Rightarrow> bool \<Rightarrow> 'e world \<Rightarrow> bool outcome \<times> Statement \<times> 'e world" where
  "Statement_Step api this failFastOnError w =
     (case native (Call_step (m_stmt this)) (sqlite3_step api (m_stmt this)) w of
        (result, w1) \<Rightarrow>
          if result = SQLITE_ROW then (Inr True, this\<lparr>m_state := HasRow\<rparr>, w1)
          else if result = SQLITE_DONE then (Inr False, this\<lparr>m_state := Completed\<rparr>, w1)
          else if failFastOnError
            then (Inl (FailFast ''Critical SQL statement failed''), this\<lparr>m_state := Error\<rparr>, w1)
            else (Inl (THROW_SQLITE api result), this\<lparr>m_state := Error\<rparr>, w1))"

definition Statement_Execute ::
  "'e sqlite3 \<Rightarrow> Statement \<Rightarrow> bool \<Rightarrow> 'e world \<Rightarrow> unit outcome \<times> Statement \<times> 'e world" where
  "Statement_Execute api this failFastOnError w =
     (case Statement_Step api this failFastOnError w of
        (Inl f, this', w1) \<Rightarrow> (Inl f, this', w1)
      | (Inr b, this', w1) \<Rightarrow>
          if b then (Inl (Thrown (HResultException E_UNEXPECTED)), this', w1)
          else (Inr (), this', w1))"

definition Statement_GetColumnIsNull ::
  "'e sqlite3 \<Rightarrow> Statement \<Rightarrow> c_int \<Rightarrow> 'e world \<Rightarrow> bool \<times> 'e world" where
  "Statement_GetColumnIsNull api this column w =
     (case native (Call_column_type (m_stmt this) column)
                  (sqlite3_column_type api (m_stmt this) column) w of
        (type, w1) \<Rightarrow> (type = SQLITE_NULL, w1))"

definition Statement_Reset :: "'e sqlite3 \<Rightarrow> Statement \<Rightarrow> 'e world \<Rightarrow> Statement \<times> 'e world" where
  "Statement_Reset api this w =
     (case native (Call_reset (m_stmt this)) (sqlite3_reset api (m_stmt this)) w of
        (_, w1) \<Rightarrow> (this\<lparr>m_state := Prepared\<rparr>, w1))"

section \<open>Typed parameter binding\<close>

text \<open>The \<open>ParameterSpecificsImpl\<close> specialisations work on the raw statement handle.\<close>

definition Bind_nullptr :: "'e sqlite3 \<Rightarrow> handle \<Rightarrow> c_int \<Rightarrow> 'e world \<Rightarrow> unit outcome \<times> 'e world" where
  "Bind_nullptr api stmt index w =
     (case native (Call_bind_null stmt index) (sqlite3_bind_null api stmt index) w of
        (rv, w1) \<Rightarrow> (THROW_IF_SQLITE_FAILED api rv, w1))"

definition Bind_string ::
  "'e sqlite3 \<Rightarrow> handle \<Rightarrow> c_int \<Rightarrow> string \<Rightarrow> 'e world \<Rightarrow> unit outcome \<times> 'e world" where
  "Bind_string api stmt index v w =
     (case native (Call_bind_text64 stmt index (c_str v) (length v) SQLITE_TRANSIENT SQLITE_UTF8)
                  (sqlite3_bind_text64 api stmt index (c_str v) (length v) SQLITE_TRANSIENT SQLITE_UTF8) w of
        (rv, w1) \<Rightarrow> (THROW_IF_SQLITE_FAILED api rv, w1))"

text \<open>The \<open>std::string\<close> built from the \<open>const char*\<close> that \<open>sqlite3_column_text\<close> returns
  holds the bytes before the first null character. For a null pointer, and for memory
  holding no null character, the construction has no defined behaviour.\<close>

definition GetColumn_string ::
  "'e sqlite3 \<Rightarrow> handle \<Rightarrow> c_int \<Rightarrow> 'e world \<Rightarrow> string outcome \<times> 'e world" where
  "GetColumn_string api stmt column w =
     (case native (Call_column_text stmt column) (sqlite3_column_text api stmt column) w of
        (None, w1) \<Rightarrow> (Inl UndefinedBehaviour, w1)
      | (Some m, w1) \<Rightarrow>
          if NUL \<in> set m then (Inr (takeWhile (\<lambda>c. c \<noteq> NUL) m), w1)
          else (Inl UndefinedBehaviour, w1))"

definition Bind_string_view ::
  "'e sqlite3 \<Rightarrow> handle \<Rightarrow> c_int \<Rightarrow> string_view \<Rightarrow> 'e world \<Rightarrow> unit outcome \<times> 'e world" where
  "Bind_string_view api stmt index v w =
     (case native (Call_bind_text64 stmt index (sv_data v) (sv_size v) SQLITE_TRANSIENT SQLITE_UTF8)
                  (sqlite3_bind_text64 api stmt index (sv_data v) (sv_size v) SQLITE_TRANSIENT SQLITE_UTF8) w of
        (rv, w1) \<Rightarrow> (THROW_IF_SQLITE_FAILED api rv, w1))"

definition Bind_int :: "'e sqlite3 \<Rightarrow> handle \<Rightarrow> c_int \<Rightarrow> c_int \<Rightarrow> 'e world \<Rightarrow> unit outcome \<times> 'e world" where
  "Bind_int api stmt index v w =
     (case native (Call_bind_int stmt index v) (sqlite3_bind_int api stmt index v) w of
        (rv, w1) \<Rightarrow> (THROW_IF_SQLITE_FAILED api rv, w1))"

definition GetColumn_int :: "'e sqlite3 \<Rightarrow> handle \<Rightarrow> c_int \<Rightarrow> 'e world \<Rightarrow> c_int \<times> 'e world" where
  "GetColumn_int api stmt column w =
     native (Call_column_int stmt column) (sqlite3_column_int api stmt column) w"

definition Bind_int64 ::
  "'e sqlite3 \<Rightarrow> handle \<Rightarrow> c_int \<Rightarrow> 64 word \<Rightarrow> 'e world \<Rightarrow> unit outcome \<times> 'e world" where
  "Bind_int64 api stmt index v w =
     (case native (Call_bind_int64 stmt index v) (sqlite3_bind_int64 api stmt index v) w of
        (rv, w1) \<Rightarrow> (THROW_IF_SQLITE_FAILED api rv, w1))"

definition GetColumn_int64 :: "'e sqlite3 \<Rightarrow> handle \<Rightarrow> c_int \<Rightarrow> 'e world \<Rightarrow> 64 word \<times> 'e world" where
  "GetColumn_int64 api stmt column w =
     native (Call_column_int64 stmt column) (sqlite3_column_int64 api stmt column) w"

section \<open>Savepoint\<close>

text \<open>
  The members the file uses: the name, the in-progress flag and the two statements
  \<open>m_rollback\<close> and \<open>m_commit\<close>. The statement \<open>begin\<close> is a local variable of the
  constructor. The constructor calls \<open>Statement::Create\<close> on \<open>std::string\<close> values and
  \<open>begin.Step()\<close> with the default argument.
\<close>

text \<open>Modelled from the spec: the header SQLiteWrapper.h, with the member initialiser of
  \<open>m_inProgress\<close> and the default arguments of \<open>Create\<close> and \<open>Step\<close>, is not among the
  sources. The spec has the savepoint in progress after construction, and
  \<open>persistent = false\<close>, \<open>failFastOnError = false\<close> as the defaults.\<close>

record Savepoint =
  m_name :: string
  m_inProgress :: bool
  m_rollback :: Statement
  m_commit :: Statement

definition Savepoint_ctor ::
  "'e sqlite3 \<Rightarrow> Connection \<Rightarrow> string \<Rightarrow> 'e world \<Rightarrow> Savepoint outcome \<times> 'e world" where
  "Savepoint_ctor api connection name w =
     (case Statement_Create_string api connection (''SAVEPOINT ['' @ name @ '']'') False w of
        (Inl f, w1) \<Rightarrow> (Inl f, w1)
      | (Inr begin, w1) \<Rightarrow>
     (case Statement_Create_string api connection (''ROLLBACK TO ['' @ name @ '']'') True w1 of
        (Inl f, w2) \<Rightarrow> (Inl f, w2)
      | (Inr rollback, w2) \<Rightarrow>
     (case Statement_Create_string api connection (''RELEASE ['' @ name @ '']'') True w2 of
        (Inl f, w3) \<Rightarrow> (Inl f, w3)
      | (Inr commit, w3) \<Rightarrow>
     (case Statement_Step api begin False w3 of
        (Inl f, _, w4) \<Rightarrow> (Inl f, w4)
      | (Inr _, _, w4) \<Rightarrow>
          (Inr \<lparr>m_name = name, m_inProgress = True, m_rollback = rollback, m_commit = commit\<rparr>,
           w4)))))"

definition Savepoint_Create ::
  "'e sqlite3 \<Rightarrow> Connection \<Rightarrow> string \<Rightarrow> 'e world \<Rightarrow> Savepoint outcome \<times> 'e world" where
  "Savepoint_Create api connection name w = Savepoint_ctor api connection name w"

definition Savepoint_Rollback ::
  "'e sqlite3 \<Rightarrow> Savepoint \<Rightarrow> 'e world \<Rightarrow> unit outcome \<times> Savepoint \<times> 'e world" where
  "Savepoint_Rollback api this w =
     (if m_inProgress this then
        (case Statement_Step api (m_rollback this) True w of
           (Inl f, st, w1) \<Rightarrow> (Inl f, this\<lparr>m_rollback := st\<rparr>, w1)
         | (Inr _, st, w1) \<Rightarrow> (Inr (), this\<lparr>m_rollback := st, m_inProgress := False\<rparr>, w1))
      else (Inr (), this, w))"

definition Savepoint_Commit ::
  "'e sqlite3 \<Rightarrow> Savepoint \<Rightarrow> 'e world \<Rightarrow> unit outcome \<times> Savepoint \<times> 'e world" where
  "Savepoint_Commit api this w =
     (if m_inProgress this then
        (case Statement_Step api (m_commit this) True w of
           (Inl f, st, w1) \<Rightarrow> (Inl f, this\<lparr>m_commit := st\<rparr>, w1)
         | (Inr _, st, w1) \<Rightarrow> (Inr (), this\<lparr>m_commit := st, m_inProgress := False\<rparr>, w1))
      else (Inr (), this, w))"

text \<open>The destructor body.\<close>

definition Savepoint_dtor ::
  "'e sqlite3 \<Rightarrow> Savepoint \<Rightarrow> 'e world \<Rightarrow> unit outcome \<times> Savepoint \<times> 'e world" where
  "Savepoint_dtor api this w = Savepoint_Rollback api this w"

text \<open>A caller's sequence of explicit \<open>Commit()\<close> and \<open>Rollback()\<close> calls on one savepoint;
  a call that does not return ends the sequence.\<close>

datatype Savepoint_call = Do_Commit | Do_Rollback

fun Savepoint_do ::
  "'e sqlite3 \<Rightarrow> Savepoint_call \<Rightarrow> Savepoint \<Rightarrow> 'e world \<Rightarrow> unit outcome \<times> Savepoint \<times> 'e world" where
  "Savepoint_do api Do_Commit sp w = Savepoint_Commit api sp w"
| "Savepoint_do api Do_Rollback sp w = Savepoint_Rollback api sp w"

fun Savepoint_calls ::
  "'e sqlite3 \<Rightarrow> Savepoint_call list \<Rightarrow> Savepoint \<Rightarrow> 'e world \<Rightarrow> unit outcome \<times> Savepoint \<times> 'e world" where
  "Savepoint_calls api [] sp w = (Inr (), sp, w)"
| "Savepoint_calls api (c # cs) sp w =
     (case Savepoint_do api c sp w of
        (Inl f, sp1, w1) \<Rightarrow> (Inl f, sp1, w1)
      | (Inr _, sp1, w1) \<Rightarrow> Savepoint_calls api cs sp1 w1)"

text \<open>The statement a call steps while the savepoint is in progress, and the statements
  a savepoint holds as members.\<close>

definition stepped_by :: "Savepoint_call \<Rightarrow> Savepoint \<Rightarrow> Statement" where
  "stepped_by c sp = (case c of Do_Commit \<Rightarrow> m_commit sp | Do_Rollback \<Rightarrow> m_rollback sp)"

definition Savepoint_statements :: "Savepoint \<Rightarrow> Statement list" where
  "Savepoint_statements sp = [m_rollback sp, m_commit sp]"

section \<open>A scripted engine\<close>

text \<open>
  An engine to run the definitions on: every native call that returns a status returns
  the next one of a script (\<open>SQLITE_OK\<close> once the script is used up), every call that
  returns a handle returns a fresh one, and the current row is a list of text columns
  (\<open>None\<close> for SQL NULL). A text column is stored with a terminating null character.
\<close>

record script =
  statuses :: "c_int list"
  last_handle :: handle
  row :: "string option list"

definition next_status :: "script \<Rightarrow> c_int \<times> script" where
  "next_status e =
     (case statuses e of [] \<Rightarrow> (SQLITE_OK, e) | r # rs \<Rightarrow> (r, e\<lparr>statuses := rs\<rparr>))"

definition next_handle :: "script \<Rightarrow> (c_int \<times> handle) \<times> script" where
  "next_handle e =
     (case next_status e of
        (r, e1) \<Rightarrow> ((r, Suc (last_handle e1)), e1\<lparr>last_handle := Suc (last_handle e1)\<rparr>))"

definition column_of :: "script \<Rightarrow> c_int \<Rightarrow> string option" where
  "column_of e column = (if unat column < length (row e) then row e ! unat column else None)"

definition scripted :: "script sqlite3" where
  "scripted = \<lparr>
     sqlite3_errstr = (\<lambda>rc. if rc = SQLITE_OK then ''not an error'' else ''SQL logic error''),
     sqlite3_open_v2 = (\<lambda>filename flags. next_handle),
     sqlite3_extended_result_codes = (\<lambda>db onoff. next_status),
     sqlite3_last_insert_rowid = (\<lambda>db e. 0),
     sqlite3_prepare_v3 = (\<lambda>db zSql nByte prepFlags. next_handle),
     sqlite3_step = (\<lambda>stmt. next_status),
     sqlite3_reset = (\<lambda>stmt. next_status),
     sqlite3_bind_null = (\<lambda>stmt i. next_status),
     sqlite3_bind_text64 = (\<lambda>stmt i m n d enc. next_status),
     sqlite3_bind_int = (\<lambda>stmt i v. next_status),
     sqlite3_bind_int64 = (\<lambda>stmt i v. next_status),
     sqlite3_column_type =
       (\<lambda>stmt i e. (case column_of e i of None \<Rightarrow> SQLITE_NULL | Some _ \<Rightarrow> 3, e)),
     sqlite3_column_text = (\<lambda>stmt i e. (map_option c_str (column_of e i), e)),
     sqlite3_column_int = (\<lambda>stmt i e. (0, e)),
     sqlite3_column_int64 = (\<lambda>stmt i e. (0, e))\<rparr>"

definition start :: "c_int list \<Rightarrow> string option list \<Rightarrow> script world" where
  "start rs cols =
     \<lparr>engine = \<lparr>statuses = rs, last_handle = 0, row = cols\<rparr>, calls = [], statementId = 0\<rparr>"

text \<open>A connection, a statement and a savepoint on the scripted engine. The savepoint is
  the one \<open>Savepoint::Create\<close> returns for the name \<open>s1\<close> on a fresh engine.\<close>

definition conn0 :: Connection where
  "conn0 = \<lparr>m_dbconn = 1\<rparr>"

definition stmt0 :: Statement where
  "stmt0 = \<lparr>m_id = 1, m_stmt = 1, m_state = Prepared\<rparr>"

definition sp0 :: Savepoint where
  "sp0 = \<lparr>m_name = ''s1'', m_inProgress = True,
           m_rollback = \<lparr>m_id = 2, m_stmt = 2, m_state = Prepared\<rparr>,
           m_commit = \<lparr>m_id = 3, m_stmt = 3, m_state = Prepared\<rparr>\<rparr>"

text \<open>The scripted engine when it cannot allocate the text of a column: the text accessor
  returns a null pointer for every column, also for one that is not NULL.\<close>

definition out_of_memory :: "script sqlite3" where
  "out_of_memory = scripted\<lparr>sqlite3_column_text := (\<lambda>stmt i e. (None, e))\<rparr>"

section \<open>Stepping a statement\<close>

lemma ROW_neq_DONE: "SQLITE_ROW \<noteq> SQLITE_DONE"
  by (simp add: SQLITE_ROW_def SQLITE_DONE_def)

lemma Statement_Step_eq:
  assumes "sqlite3_step api (m_stmt st) (engine w) = (result, e')"
  shows "Statement_Step api st ff w =
    (if result = SQLITE_ROW then Inr True
     else if result = SQLITE_DONE then Inr False
     else if ff then Inl (FailFast ''Critical SQL statement failed'')
     else Inl (THROW_SQLITE api result),
     st\<lparr>m_state := (if result = SQLITE_ROW then HasRow
                     else if result = SQLITE_DONE then Completed else Error)\<rparr>,
     w\<lparr>engine := e', calls := calls w @ [Call_step (m_stmt st)]\<rparr>)"
  using assms by (simp add: Statement_Step_def native_def)

lemma scripted_step: "sqlite3_step scripted h e = next_status e"
  by (simp add: scripted_def)

lemma scripted_prepare: "sqlite3_prepare_v3 scripted db zSql nByte prepFlags e = next_handle e"
  by (simp add: scripted_def)

text \<open>
  C3. Whatever the engine answers to \<open>sqlite3_step\<close>: \<open>Step\<close> returns true exactly when the
  answer is \<open>SQLITE_ROW\<close>, and the state is then \<open>HasRow\<close>; it returns false exactly when
  the answer is \<open>SQLITE_DONE\<close>, and the state is then \<open>Completed\<close>; for every other
  answer the state is \<open>Error\<close>, and the call terminates the process when
  \<open>failFastOnError\<close> is set and throws a \<open>SQLiteException\<close> holding that answer
  otherwise. The call steps the statement's handle once.
\<close>

theorem Statement_Step_result:
  assumes "sqlite3_step api (m_stmt st) (engine w) = (result, e')"
    and "Statement_Step api st failFastOnError w = (r, st', w')"
  shows "(r = Inr True) = (result = SQLITE_ROW) \<and>
         (m_state st' = HasRow) = (result = SQLITE_ROW) \<and>
         (r = Inr False) = (result = SQLITE_DONE) \<and>
         (m_state st' = Completed) = (result = SQLITE_DONE) \<and>
         (m_state st' = Error) = (result \<noteq> SQLITE_ROW \<and> result \<noteq> SQLITE_DONE) \<and>
         (r = Inl (FailFast ''Critical SQL statement failed'')) =
           (result \<noteq> SQLITE_ROW \<and> result \<noteq> SQLITE_DONE \<and> failFastOnError) \<and>
         (r = Inl (Thrown (SQLiteException result (sqlite3_errstr api result)))) =
           (result \<noteq> SQLITE_ROW \<and> result \<noteq> SQLITE_DONE \<and> \<not> failFastOnError) \<and>
         calls w' = calls w @ [Call_step (m_stmt st)] \<and> engine w' = e'"
  using assms(2) ROW_neq_DONE unfolding Statement_Step_eq [OF assms(1)]
  by (auto simp: THROW_SQLITE_def split: if_splits)

theorem Statement_Step_result_witness:
  "sqlite3_step scripted (m_stmt stmt0) (engine (start [100] [])) =
     (100, \<lparr>statuses = [], last_handle = 0, row = []\<rparr>) \<and>
   Statement_Step scripted stmt0 False (start [100] []) =
     (Inr True, stmt0\<lparr>m_state := HasRow\<rparr>,
      \<lparr>engine = \<lparr>statuses = [], last_handle = 0, row = []\<rparr>, calls = [Call_step 1],
         statementId = 0\<rparr>) \<and>
   (100 :: c_int) = SQLITE_ROW \<and> m_state (stmt0\<lparr>m_state := HasRow\<rparr>) = HasRow"
proof -
  have h1: "sqlite3_step scripted (m_stmt stmt0) (engine (start [100] [])) =
     (100, \<lparr>statuses = [], last_handle = 0, row = []\<rparr>)"
    by (simp add: scripted_step next_status_def start_def)
  have h2: "Statement_Step scripted stmt0 False (start [100] []) =
     (Inr True, stmt0\<lparr>m_state := HasRow\<rparr>,
      \<lparr>engine = \<lparr>statuses = [], last_handle = 0, row = []\<rparr>, calls = [Call_step 1],
         statementId = 0\<rparr>)"
    by (simp add: Statement_Step_def native_def scripted_step next_status_def start_def
        stmt0_def SQLITE_ROW_def)
  show ?thesis
    using Statement_Step_result [OF h1 h2] h1 h2 by simp
qed

section \<open>Ending a savepoint\<close>

text \<open>
  C1. The destructor of a savepoint that is still in progress steps the rollback
  statement, once and nothing else. It then either returns with the in-progress flag
  cleared, which it does exactly when the engine answers \<open>SQLITE_ROW\<close> or
  \<open>SQLITE_DONE\<close>, or terminates the process: it never returns with the savepoint still in
  progress and never throws.
\<close>

theorem Savepoint_dtor_rolls_back:
  assumes "m_inProgress sp"
    and "sqlite3_step api (m_stmt (m_rollback sp)) (engine w) = (result, e')"
    and "Savepoint_dtor api sp w = (r, sp', w')"
  shows "calls w' = calls w @ [Call_step (m_stmt (m_rollback sp))] \<and>
         (r = Inr () \<or> r = Inl (FailFast ''Critical SQL statement failed'')) \<and>
         (r = Inr ()) = (result = SQLITE_ROW \<or> result = SQLITE_DONE) \<and>
         (r = Inr ()) = (\<not> m_inProgress sp')"
  using assms(1,3)
  unfolding Savepoint_dtor_def Savepoint_Rollback_def Statement_Step_eq [OF assms(2)]
  by (auto split: if_splits)

theorem Savepoint_dtor_rolls_back_witness:
  "m_inProgress sp0 \<and>
   sqlite3_step scripted (m_stmt (m_rollback sp0)) (engine (start [101] [])) =
     (101, \<lparr>statuses = [], last_handle = 0, row = []\<rparr>) \<and>
   Savepoint_dtor scripted sp0 (start [101] []) =
     (Inr (), sp0\<lparr>m_rollback := (m_rollback sp0)\<lparr>m_state := Completed\<rparr>, m_inProgress := False\<rparr>,
      \<lparr>engine = \<lparr>statuses = [], last_handle = 0, row = []\<rparr>, calls = [Call_step 2],
         statementId = 0\<rparr>) \<and>
   calls (start [101] []) @ [Call_step (m_stmt (m_rollback sp0))] = [Call_step 2]"
proof -
  have h1: "m_inProgress sp0"
    by (simp add: sp0_def)
  have h2: "sqlite3_step scripted (m_stmt (m_rollback sp0)) (engine (start [101] [])) =
     (101, \<lparr>statuses = [], last_handle = 0, row = []\<rparr>)"
    by (simp add: scripted_step next_status_def start_def)
  have h3: "Savepoint_dtor scripted sp0 (start [101] []) =
     (Inr (), sp0\<lparr>m_rollback := (m_rollback sp0)\<lparr>m_state := Completed\<rparr>, m_inProgress := False\<rparr>,
      \<lparr>engine = \<lparr>statuses = [], last_handle = 0, row = []\<rparr>, calls = [Call_step 2],
         statementId = 0\<rparr>)"
    by (simp add: Savepoint_dtor_def Savepoint_Rollback_def Statement_Step_eq [OF h2] h1
        SQLITE_ROW_def SQLITE_DONE_def)
       (simp add: sp0_def start_def)
  show ?thesis
    using Savepoint_dtor_rolls_back [OF h1 h2 h3] h1 h2 h3 by simp
qed

text \<open>
  C4. \<open>Rollback()\<close>, \<open>Commit()\<close> and the destructor never throw, whatever the engine
  answers. On a savepoint in progress, an answer to the step of the rollback statement
  (of the release statement) other than \<open>SQLITE_ROW\<close> and \<open>SQLITE_DONE\<close> makes
  \<open>Rollback()\<close> and the destructor (\<open>Commit()\<close>) terminate the process.
\<close>

theorem Savepoint_steps_fail_fast:
  assumes "sqlite3_step api (m_stmt (m_rollback sp)) (engine w) = (rb, e1)"
    and "sqlite3_step api (m_stmt (m_commit sp)) (engine w) = (cm, e2)"
  shows "(\<forall>x. fst (Savepoint_Rollback api sp w) \<noteq> Inl (Thrown x)) \<and>
         (\<forall>x. fst (Savepoint_Commit api sp w) \<noteq> Inl (Thrown x)) \<and>
         (\<forall>x. fst (Savepoint_dtor api sp w) \<noteq> Inl (Thrown x)) \<and>
         (m_inProgress sp \<and> rb \<noteq> SQLITE_ROW \<and> rb \<noteq> SQLITE_DONE \<longrightarrow>
            fst (Savepoint_Rollback api sp w) = Inl (FailFast ''Critical SQL statement failed'') \<and>
            fst (Savepoint_dtor api sp w) = Inl (FailFast ''Critical SQL statement failed'')) \<and>
         (m_inProgress sp \<and> cm \<noteq> SQLITE_ROW \<and> cm \<noteq> SQLITE_DONE \<longrightarrow>
            fst (Savepoint_Commit api sp w) = Inl (FailFast ''Critical SQL statement failed''))"
  unfolding Savepoint_dtor_def Savepoint_Rollback_def Savepoint_Commit_def
    Statement_Step_eq [OF assms(1)] Statement_Step_eq [OF assms(2)]
  by (auto split: if_splits)

theorem Savepoint_steps_fail_fast_witness:
  "sqlite3_step scripted (m_stmt (m_rollback sp0)) (engine (start [1] [])) =
     (1, \<lparr>statuses = [], last_handle = 0, row = []\<rparr>) \<and>
   sqlite3_step scripted (m_stmt (m_commit sp0)) (engine (start [1] [])) =
     (1, \<lparr>statuses = [], last_handle = 0, row = []\<rparr>) \<and>
   m_inProgress sp0 \<and> (1 :: c_int) \<noteq> SQLITE_ROW \<and> (1 :: c_int) \<noteq> SQLITE_DONE \<and>
   fst (Savepoint_Rollback scripted sp0 (start [1] [])) =
     Inl (FailFast ''Critical SQL statement failed'') \<and>
   fst (Savepoint_dtor scripted sp0 (start [1] [])) =
     Inl (FailFast ''Critical SQL statement failed'') \<and>
   fst (Savepoint_Commit scripted sp0 (start [1] [])) =
     Inl (FailFast ''Critical SQL statement failed'')"
proof -
  have h1: "sqlite3_step scripted (m_stmt (m_rollback sp0)) (engine (start [1] [])) =
     (1, \<lparr>statuses = [], last_handle = 0, row = []\<rparr>)"
    by (simp add: scripted_step next_status_def start_def)
  have h2: "sqlite3_step scripted (m_stmt (m_commit sp0)) (engine (start [1] [])) =
     (1, \<lparr>statuses = [], last_handle = 0, row = []\<rparr>)"
    by (simp add: scripted_step next_status_def start_def)
  have h3: "m_inProgress sp0 \<and> (1 :: c_int) \<noteq> SQLITE_ROW \<and> (1 :: c_int) \<noteq> SQLITE_DONE"
    by (simp add: sp0_def SQLITE_ROW_def SQLITE_DONE_def)
  show ?thesis
    using Savepoint_steps_fail_fast [OF h1 h2] h1 h2 h3 by simp
qed

lemma Savepoint_do_terminal:
  "\<not> m_inProgress sp \<Longrightarrow> Savepoint_do api c sp w = (Inr (), sp, w)"
  by (cases c) (simp_all add: Savepoint_Commit_def Savepoint_Rollback_def)

lemma Savepoint_calls_terminal:
  "\<not> m_inProgress sp \<Longrightarrow> Savepoint_calls api cs sp w = (Inr (), sp, w)"
  by (induction cs) (simp_all add: Savepoint_do_terminal)

lemma Savepoint_do_first:
  assumes "m_inProgress sp"
    and "sqlite3_step api (m_stmt (stepped_by c sp)) (engine w) = (result, e')"
    and "Savepoint_do api c sp w = (r, sp1, w1)"
  shows "calls w1 = calls w @ [Call_step (m_stmt (stepped_by c sp))] \<and>
         (r = Inr () \<or> r = Inl (FailFast ''Critical SQL statement failed'')) \<and>
         (r = Inr () \<longrightarrow> \<not> m_inProgress sp1)"
proof (cases c)
  case Do_Commit
  with assms(2) have s: "sqlite3_step api (m_stmt (m_commit sp)) (engine w) = (result, e')"
    by (simp add: stepped_by_def)
  show ?thesis
    using assms(1,3) Do_Commit unfolding stepped_by_def
    by (auto simp: Savepoint_Commit_def Statement_Step_eq [OF s] split: if_splits)
next
  case Do_Rollback
  with assms(2) have s: "sqlite3_step api (m_stmt (m_rollback sp)) (engine w) = (result, e')"
    by (simp add: stepped_by_def)
  show ?thesis
    using assms(1,3) Do_Rollback unfolding stepped_by_def
    by (auto simp: Savepoint_Rollback_def Statement_Step_eq [OF s] split: if_splits)
qed

text \<open>
  C2. Take a savepoint in progress and any sequence of \<open>Commit()\<close> and \<open>Rollback()\<close> calls
  on it. The whole sequence makes one native call: the step of the statement of the
  first call (release for \<open>Commit()\<close>, rollback for \<open>Rollback()\<close>). No call throws; the
  sequence ends with every call returned, or with the process terminated by the first
  one. Once the first call has returned, the savepoint is no longer in progress, and any
  further sequence of calls returns with the savepoint and the world unchanged.
\<close>

theorem Savepoint_Commit_Rollback_once:
  assumes "m_inProgress sp"
    and "Savepoint_calls api (c # cs) sp w = (r, sp', w')"
  shows "calls w' = calls w @ [Call_step (m_stmt (stepped_by c sp))] \<and>
         (r = Inr () \<or> r = Inl (FailFast ''Critical SQL statement failed'')) \<and>
         (r = Inr () \<longrightarrow> \<not> m_inProgress sp' \<and>
            (\<forall>later. Savepoint_calls api later sp' w' = (Inr (), sp', w')))"
proof -
  obtain result e' where s: "sqlite3_step api (m_stmt (stepped_by c sp)) (engine w) = (result, e')"
    by (cases "sqlite3_step api (m_stmt (stepped_by c sp)) (engine w)")
  obtain r1 sp1 w1 where d: "Savepoint_do api c sp w = (r1, sp1, w1)"
    by (cases "Savepoint_do api c sp w")
  note f = Savepoint_do_first [OF assms(1) s d]
  show ?thesis
  proof (cases r1)
    case (Inl x)
    with assms(2) d have "r = r1" "sp' = sp1" "w' = w1" by simp_all
    with f Inl show ?thesis by auto
  next
    case (Inr u)
    with f have t: "\<not> m_inProgress sp1" by simp
    from assms(2) d Inr have "Savepoint_calls api cs sp1 w1 = (r, sp', w')" by simp
    with Savepoint_calls_terminal [OF t, of api cs w1]
    have "r = Inr ()" "sp' = sp1" "w' = w1" by simp_all
    with f t show ?thesis by (simp add: Savepoint_calls_terminal)
  qed
qed

theorem Savepoint_Commit_Rollback_once_witness:
  "m_inProgress sp0 \<and>
   Savepoint_calls scripted [Do_Commit, Do_Rollback, Do_Commit] sp0 (start [101, 1, 1] []) =
     (Inr (), sp0\<lparr>m_commit := (m_commit sp0)\<lparr>m_state := Completed\<rparr>, m_inProgress := False\<rparr>,
      \<lparr>engine = \<lparr>statuses = [1, 1], last_handle = 0, row = []\<rparr>, calls = [Call_step 3],
         statementId = 0\<rparr>) \<and>
   calls (start [101, 1, 1] []) @ [Call_step (m_stmt (stepped_by Do_Commit sp0))] = [Call_step 3]"
proof -
  have h1: "m_inProgress sp0"
    by (simp add: sp0_def)
  have s: "sqlite3_step scripted (m_stmt (m_commit sp0)) (engine (start [101, 1, 1] [])) =
     (101, \<lparr>statuses = [1, 1], last_handle = 0, row = []\<rparr>)"
    by (simp add: scripted_step next_status_def start_def)
  have h2: "Savepoint_calls scripted [Do_Commit, Do_Rollback, Do_Commit] sp0 (start [101, 1, 1] []) =
     (Inr (), sp0\<lparr>m_commit := (m_commit sp0)\<lparr>m_state := Completed\<rparr>, m_inProgress := False\<rparr>,
      \<lparr>engine = \<lparr>statuses = [1, 1], last_handle = 0, row = []\<rparr>, calls = [Call_step 3],
         statementId = 0\<rparr>)"
    by (simp add: Savepoint_Commit_def Savepoint_Rollback_def Statement_Step_eq [OF s] h1
        SQLITE_ROW_def SQLITE_DONE_def)
       (simp add: sp0_def start_def)
  show ?thesis
    using Savepoint_Commit_Rollback_once [OF h1 h2] h1 h2 by simp
qed

section \<open>Creating statements, savepoints and connections\<close>

lemma Statement_Create_string_eq:
  assumes "sqlite3_prepare_v3 api (m_dbconn conn) (c_str sql) (of_nat (length sql + 1))
             (if p then SQLITE_PREPARE_PERSISTENT else 0) (engine w) = ((rv, h), e')"
  shows "Statement_Create_string api conn sql p w =
     (if rv \<noteq> SQLITE_OK then Inl (THROW_SQLITE api rv)
      else Inr \<lparr>m_id = statementId w + 1, m_stmt = h, m_state = Prepared\<rparr>,
      w\<lparr>engine := e',
        calls := calls w @ [Call_prepare_v3 (m_dbconn conn) (c_str sql) (of_nat (length sql + 1))
                              (if p then SQLITE_PREPARE_PERSISTENT else 0)],
        statementId := statementId w + 1\<rparr>)"
  using assms
  by (simp add: Statement_Create_string_def Statement_ctor_def GetNextStatementId_def
      view_of_string_def c_str_def native_def THROW_IF_SQLITE_FAILED_def)

text \<open>
  C5. Name the engine's answers to the three prepare calls and to the step of the first
  statement. \<open>Savepoint::Create\<close> prepares \<open>SAVEPOINT [name]\<close> without flags, then
  \<open>ROLLBACK TO [name]\<close> and \<open>RELEASE [name]\<close> with \<open>SQLITE_PREPARE_PERSISTENT\<close>, each as
  a null-terminated buffer, and then steps the first statement and no other. It stops
  at the first prepare whose status is not \<open>SQLITE_OK\<close>, and at a step whose status is
  neither \<open>SQLITE_ROW\<close> nor \<open>SQLITE_DONE\<close>, throwing a \<open>SQLiteException\<close> with that
  status: no savepoint object then exists whose destructor could roll back. Otherwise it
  returns the savepoint, in progress, holding the second and third statements unstepped.
\<close>

theorem Savepoint_Create_result:
  assumes p1: "sqlite3_prepare_v3 api (m_dbconn conn) (c_str (''SAVEPOINT ['' @ name @ '']''))
                 (of_nat (length (''SAVEPOINT ['' @ name @ '']'') + 1)) 0 (engine w) = ((rc1, h1), e1)"
    and p2: "sqlite3_prepare_v3 api (m_dbconn conn) (c_str (''ROLLBACK TO ['' @ name @ '']''))
                 (of_nat (length (''ROLLBACK TO ['' @ name @ '']'') + 1)) SQLITE_PREPARE_PERSISTENT e1 =
               ((rc2, h2), e2)"
    and p3: "sqlite3_prepare_v3 api (m_dbconn conn) (c_str (''RELEASE ['' @ name @ '']''))
                 (of_nat (length (''RELEASE ['' @ name @ '']'') + 1)) SQLITE_PREPARE_PERSISTENT e2 =
               ((rc3, h3), e3)"
    and st: "sqlite3_step api h1 e3 = (rc4, e4)"
  shows "Savepoint_Create api conn name w =
    (if rc1 \<noteq> SQLITE_OK then
       (Inl (Thrown (SQLiteException rc1 (sqlite3_errstr api rc1))),
        w\<lparr>engine := e1, statementId := statementId w + 1,
          calls := calls w @
            [Call_prepare_v3 (m_dbconn conn) (c_str (''SAVEPOINT ['' @ name @ '']''))
               (of_nat (length (''SAVEPOINT ['' @ name @ '']'') + 1)) 0]\<rparr>)
     else if rc2 \<noteq> SQLITE_OK then
       (Inl (Thrown (SQLiteException rc2 (sqlite3_errstr api rc2))),
        w\<lparr>engine := e2, statementId := statementId w + 2,
          calls := calls w @
            [Call_prepare_v3 (m_dbconn conn) (c_str (''SAVEPOINT ['' @ name @ '']''))
               (of_nat (length (''SAVEPOINT ['' @ name @ '']'') + 1)) 0,
             Call_prepare_v3 (m_dbconn conn) (c_str (''ROLLBACK TO ['' @ name @ '']''))
               (of_nat (length (''ROLLBACK TO ['' @ name @ '']'') + 1)) SQLITE_PREPARE_PERSISTENT]\<rparr>)
     else if rc3 \<noteq> SQLITE_OK then
       (Inl (Thrown (SQLiteException rc3 (sqlite3_errstr api rc3))),
        w\<lparr>engine := e3, statementId := statementId w + 3,
          calls := calls w @
            [Call_prepare_v3 (m_dbconn conn) (c_str (''SAVEPOINT ['' @ name @ '']''))
               (of_nat (length (''SAVEPOINT ['' @ name @ '']'') + 1)) 0,
             Call_prepare_v3 (m_dbconn conn) (c_str (''ROLLBACK TO ['' @ name @ '']''))
               (of_nat (length (''ROLLBACK TO ['' @ name @ '']'') + 1)) SQLITE_PREPARE_PERSISTENT,
             Call_prepare_v3 (m_dbconn conn) (c_str (''RELEASE ['' @ name @ '']''))
               (of_nat (length (''RELEASE ['' @ name @ '']'') + 1)) SQLITE_PREPARE_PERSISTENT]\<rparr>)
     else
       (if rc4 = SQLITE_ROW \<or> rc4 = SQLITE_DONE then
          Inr \<lparr>m_name = name, m_inProgress = True,
               m_rollback = \<lparr>m_id = statementId w + 2, m_stmt = h2, m_state = Prepared\<rparr>,
               m_commit = \<lparr>m_id = statementId w + 3, m_stmt = h3, m_state = Prepared\<rparr>\<rparr>
        else Inl (Thrown (SQLiteException rc4 (sqlite3_errstr api rc4))),
        w\<lparr>engine := e4, statementId := statementId w + 3,
          calls := calls w @
            [Call_prepare_v3 (m_dbconn conn) (c_str (''SAVEPOINT ['' @ name @ '']''))
               (of_nat (length (''SAVEPOINT ['' @ name @ '']'') + 1)) 0,
             Call_prepare_v3 (m_dbconn conn) (c_str (''ROLLBACK TO ['' @ name @ '']''))
               (of_nat (length (''ROLLBACK TO ['' @ name @ '']'') + 1)) SQLITE_PREPARE_PERSISTENT,
             Call_prepare_v3 (m_dbconn conn) (c_str (''RELEASE ['' @ name @ '']''))
               (of_nat (length (''RELEASE ['' @ name @ '']'') + 1)) SQLITE_PREPARE_PERSISTENT,
             Call_step h1]\<rparr>))"
proof -
  define B where "B = ''SAVEPOINT ['' @ name @ '']''"
  define R where "R = ''ROLLBACK TO ['' @ name @ '']''"
  define C where "C = ''RELEASE ['' @ name @ '']''"
  define P1 where "P1 = Call_prepare_v3 (m_dbconn conn) (c_str B) (of_nat (length B + 1)) 0"
  define P2 where "P2 = Call_prepare_v3 (m_dbconn conn) (c_str R) (of_nat (length R + 1))
                          SQLITE_PREPARE_PERSISTENT"
  define P3 where "P3 = Call_prepare_v3 (m_dbconn conn) (c_str C) (of_nat (length C + 1))
                          SQLITE_PREPARE_PERSISTENT"
  define w1 where "w1 = w\<lparr>engine := e1, calls := calls w @ [P1], statementId := statementId w + 1\<rparr>"
  define w2 where "w2 = w1\<lparr>engine := e2, calls := calls w1 @ [P2], statementId := statementId w1 + 1\<rparr>"
  define w3 where "w3 = w2\<lparr>engine := e3, calls := calls w2 @ [P3], statementId := statementId w2 + 1\<rparr>"
  define w4 where "w4 = w3\<lparr>engine := e4, calls := calls w3 @ [Call_step h1]\<rparr>"
  have c1: "Statement_Create_string api conn B False w =
     (if rc1 \<noteq> SQLITE_OK then Inl (THROW_SQLITE api rc1)
      else Inr \<lparr>m_id = statementId w + 1, m_stmt = h1, m_state = Prepared\<rparr>, w1)"
    using p1 unfolding w1_def P1_def B_def by (simp add: Statement_Create_string_eq)
  have "engine w1 = e1" by (simp add: w1_def)
  with p2 have c2: "Statement_Create_string api conn R True w1 =
     (if rc2 \<noteq> SQLITE_OK then Inl (THROW_SQLITE api rc2)
      else Inr \<lparr>m_id = statementId w1 + 1, m_stmt = h2, m_state = Prepared\<rparr>, w2)"
    unfolding w2_def P2_def R_def by (simp add: Statement_Create_string_eq)
  have "engine w2 = e2" by (simp add: w2_def)
  with p3 have c3: "Statement_Create_string api conn C True w2 =
     (if rc3 \<noteq> SQLITE_OK then Inl (THROW_SQLITE api rc3)
      else Inr \<lparr>m_id = statementId w2 + 1, m_stmt = h3, m_state = Prepared\<rparr>, w3)"
    unfolding w3_def P3_def C_def by (simp add: Statement_Create_string_eq)
  have "engine w3 = e3" by (simp add: w3_def)
  with st have s4: "Statement_Step api \<lparr>m_id = statementId w + 1, m_stmt = h1, m_state = Prepared\<rparr> False w3 =
     (if rc4 = SQLITE_ROW then Inr True else if rc4 = SQLITE_DONE then Inr False
      else Inl (THROW_SQLITE api rc4),
      \<lparr>m_id = statementId w + 1, m_stmt = h1,
        m_state = (if rc4 = SQLITE_ROW then HasRow else if rc4 = SQLITE_DONE then Completed else Error)\<rparr>,
      w4)"
    unfolding w4_def by (simp add: Statement_Step_def native_def)
  have ids: "statementId w1 = statementId w + 1" "statementId w2 = statementId w + 2"
    "statementId w3 = statementId w + 3"
    by (simp_all add: w1_def w2_def w3_def)
  have ws: "w1 = w\<lparr>engine := e1, statementId := statementId w + 1, calls := calls w @ [P1]\<rparr>"
    "w2 = w\<lparr>engine := e2, statementId := statementId w + 2, calls := calls w @ [P1, P2]\<rparr>"
    "w3 = w\<lparr>engine := e3, statementId := statementId w + 3, calls := calls w @ [P1, P2, P3]\<rparr>"
    "w4 = w\<lparr>engine := e4, statementId := statementId w + 3,
            calls := calls w @ [P1, P2, P3, Call_step h1]\<rparr>"
    by (simp_all add: w1_def w2_def w3_def w4_def)
  have "Savepoint_Create api conn name w =
    (if rc1 \<noteq> SQLITE_OK then (Inl (THROW_SQLITE api rc1), w1)
     else if rc2 \<noteq> SQLITE_OK then (Inl (THROW_SQLITE api rc2), w2)
     else if rc3 \<noteq> SQLITE_OK then (Inl (THROW_SQLITE api rc3), w3)
     else (if rc4 = SQLITE_ROW \<or> rc4 = SQLITE_DONE then
          Inr \<lparr>m_name = name, m_inProgress = True,
               m_rollback = \<lparr>m_id = statementId w + 2, m_stmt = h2, m_state = Prepared\<rparr>,
               m_commit = \<lparr>m_id = statementId w + 3, m_stmt = h3, m_state = Prepared\<rparr>\<rparr>
        else Inl (THROW_SQLITE api rc4), w4))"
    unfolding Savepoint_Create_def Savepoint_ctor_def B_def [symmetric] R_def [symmetric]
      C_def [symmetric]
    by (simp add: c1 c2 c3 s4 ids)
  then show ?thesis
    unfolding ws P1_def P2_def P3_def THROW_SQLITE_def B_def R_def C_def .
qed

theorem Savepoint_Create_result_witness:
  "sqlite3_prepare_v3 scripted (m_dbconn conn0) (c_str (''SAVEPOINT ['' @ ''s1'' @ '']''))
     (of_nat (length (''SAVEPOINT ['' @ ''s1'' @ '']'') + 1)) 0 (engine (start [0, 0, 0, 101] [])) =
     ((0, 1), \<lparr>statuses = [0, 0, 101], last_handle = 1, row = []\<rparr>) \<and>
   sqlite3_prepare_v3 scripted (m_dbconn conn0) (c_str (''ROLLBACK TO ['' @ ''s1'' @ '']''))
     (of_nat (length (''ROLLBACK TO ['' @ ''s1'' @ '']'') + 1)) SQLITE_PREPARE_PERSISTENT
     \<lparr>statuses = [0, 0, 101], last_handle = 1, row = []\<rparr> =
     ((0, 2), \<lparr>statuses = [0, 101], last_handle = 2, row = []\<rparr>) \<and>
   sqlite3_prepare_v3 scripted (m_dbconn conn0) (c_str (''RELEASE ['' @ ''s1'' @ '']''))
     (of_nat (length (''RELEASE ['' @ ''s1'' @ '']'') + 1)) SQLITE_PREPARE_PERSISTENT
     \<lparr>statuses = [0, 101], last_handle = 2, row = []\<rparr> =
     ((0, 3), \<lparr>statuses = [101], last_handle = 3, row = []\<rparr>) \<and>
   sqlite3_step scripted 1 \<lparr>statuses = [101], last_handle = 3, row = []\<rparr> =
     (101, \<lparr>statuses = [], last_handle = 3, row = []\<rparr>) \<and>
   Savepoint_Create scripted conn0 ''s1'' (start [0, 0, 0, 101] []) =
     (Inr sp0,
      \<lparr>engine = \<lparr>statuses = [], last_handle = 3, row = []\<rparr>,
       calls = [Call_prepare_v3 1 (c_str ''SAVEPOINT [s1]'') 15 0,
                Call_prepare_v3 1 (c_str ''ROLLBACK TO [s1]'') 17 SQLITE_PREPARE_PERSISTENT,
                Call_prepare_v3 1 (c_str ''RELEASE [s1]'') 13 SQLITE_PREPARE_PERSISTENT,
                Call_step 1],
       statementId = 3\<rparr>)"
proof -
  have h1: "sqlite3_prepare_v3 scripted (m_dbconn conn0) (c_str (''SAVEPOINT ['' @ ''s1'' @ '']''))
     (of_nat (length (''SAVEPOINT ['' @ ''s1'' @ '']'') + 1)) 0 (engine (start [0, 0, 0, 101] [])) =
     ((0, 1), \<lparr>statuses = [0, 0, 101], last_handle = 1, row = []\<rparr>)"
    by (simp add: scripted_prepare next_handle_def next_status_def start_def)
  have h2: "sqlite3_prepare_v3 scripted (m_dbconn conn0) (c_str (''ROLLBACK TO ['' @ ''s1'' @ '']''))
     (of_nat (length (''ROLLBACK TO ['' @ ''s1'' @ '']'') + 1)) SQLITE_PREPARE_PERSISTENT
     \<lparr>statuses = [0, 0, 101], last_handle = 1, row = []\<rparr> =
     ((0, 2), \<lparr>statuses = [0, 101], last_handle = 2, row = []\<rparr>)"
    by (simp add: scripted_prepare next_handle_def next_status_def)
  have h3: "sqlite3_prepare_v3 scripted (m_dbconn conn0) (c_str (''RELEASE ['' @ ''s1'' @ '']''))
     (of_nat (length (''RELEASE ['' @ ''s1'' @ '']'') + 1)) SQLITE_PREPARE_PERSISTENT
     \<lparr>statuses = [0, 101], last_handle = 2, row = []\<rparr> =
     ((0, 3), \<lparr>statuses = [101], last_handle = 3, row = []\<rparr>)"
    by (simp add: scripted_prepare next_handle_def next_status_def)
  have h4: "sqlite3_step scripted 1 \<lparr>statuses = [101], last_handle = 3, row = []\<rparr> =
     (101, \<lparr>statuses = [], last_handle = 3, row = []\<rparr>)"
    by (simp add: scripted_step next_status_def)
  have "Savepoint_Create scripted conn0 ''s1'' (start [0, 0, 0, 101] []) =
     (Inr sp0,
      \<lparr>engine = \<lparr>statuses = [], last_handle = 3, row = []\<rparr>,
       calls = [Call_prepare_v3 1 (c_str ''SAVEPOINT [s1]'') 15 0,
                Call_prepare_v3 1 (c_str ''ROLLBACK TO [s1]'') 17 SQLITE_PREPARE_PERSISTENT,
                Call_prepare_v3 1 (c_str ''RELEASE [s1]'') 13 SQLITE_PREPARE_PERSISTENT,
                Call_step 1],
       statementId = 3\<rparr>)"
    unfolding Savepoint_Create_result [OF h1 h2 h3 h4]
    by (simp add: SQLITE_OK_def SQLITE_DONE_def sp0_def start_def conn0_def)
  with h1 h2 h3 h4 show ?thesis by blast
qed

lemma Connection_Create_eq:
  assumes "sqlite3_open_v2 api (c_str target) (disposition OR flags) (engine w) = ((rc1, db), e1)"
    and "sqlite3_extended_result_codes api db 1 e1 = (rc2, e2)"
  shows "Connection_Create api target disposition flags w =
    (if rc1 \<noteq> SQLITE_OK then
       (Inl (THROW_SQLITE api rc1),
        w\<lparr>engine := e1, calls := calls w @ [Call_open_v2 (c_str target) (disposition OR flags)]\<rparr>)
     else
       (if rc2 \<noteq> SQLITE_OK then Inl (THROW_SQLITE api rc2) else Inr \<lparr>m_dbconn = db\<rparr>,
        w\<lparr>engine := e2,
          calls := calls w @ [Call_open_v2 (c_str target) (disposition OR flags),
                              Call_extended_result_codes db 1]\<rparr>))"
  using assms
  by (simp add: Connection_Create_def Connection_ctor_def native_def THROW_IF_SQLITE_FAILED_def)

text \<open>
  C7. For every target, disposition and flags, and whatever the engine answers,
  \<open>Connection::Create\<close> first calls \<open>sqlite3_open_v2\<close> with the bitwise or of the
  disposition and the flags, whatever their values; when that call returns \<open>SQLITE_OK\<close>
  it then calls \<open>sqlite3_extended_result_codes\<close> on the handle opened, and it makes no
  other native call. It throws a \<open>SQLiteException\<close> holding the status of the open call
  (of the second call) exactly when that status is not \<open>SQLITE_OK\<close>, and returns the
  connection exactly when both are \<open>SQLITE_OK\<close>.
\<close>

theorem Connection_Create_result:
  assumes "sqlite3_open_v2 api (c_str target) (disposition OR flags) (engine w) = ((rc1, db), e1)"
    and "sqlite3_extended_result_codes api db 1 e1 = (rc2, e2)"
    and "Connection_Create api target disposition flags w = (r, w')"
  shows "calls w' = calls w @ Call_open_v2 (c_str target) (disposition OR flags) #
           (if rc1 = SQLITE_OK then [Call_extended_result_codes db 1] else []) \<and>
         (r = Inl (Thrown (SQLiteException rc1 (sqlite3_errstr api rc1)))) = (rc1 \<noteq> SQLITE_OK) \<and>
         (r = Inl (Thrown (SQLiteException rc2 (sqlite3_errstr api rc2)))) =
           (rc1 \<noteq> SQLITE_OK \<and> rc1 = rc2 \<or> rc1 = SQLITE_OK \<and> rc2 \<noteq> SQLITE_OK) \<and>
         (r = Inr \<lparr>m_dbconn = db\<rparr>) = (rc1 = SQLITE_OK \<and> rc2 = SQLITE_OK) \<and>
         (\<exists>x. r = Inl x) = (rc1 \<noteq> SQLITE_OK \<or> rc2 \<noteq> SQLITE_OK)"
  using assms(3) unfolding Connection_Create_eq [OF assms(1,2)]
  by (auto simp: THROW_SQLITE_def split: if_splits)

theorem Connection_Create_result_witness:
  "sqlite3_open_v2 scripted (c_str ''db'') (6 OR 64) (engine (start [0, 0] [])) =
     ((0, 1), \<lparr>statuses = [0], last_handle = 1, row = []\<rparr>) \<and>
   sqlite3_extended_result_codes scripted 1 1 \<lparr>statuses = [0], last_handle = 1, row = []\<rparr> =
     (0, \<lparr>statuses = [], last_handle = 1, row = []\<rparr>) \<and>
   Connection_Create scripted ''db'' 6 64 (start [0, 0] []) =
     (Inr \<lparr>m_dbconn = 1\<rparr>,
      \<lparr>engine = \<lparr>statuses = [], last_handle = 1, row = []\<rparr>,
       calls = [Call_open_v2 (c_str ''db'') 70, Call_extended_result_codes 1 1],
       statementId = 0\<rparr>)"
proof -
  have h1: "sqlite3_open_v2 scripted (c_str ''db'') (6 OR 64) (engine (start [0, 0] [])) =
     ((0, 1), \<lparr>statuses = [0], last_handle = 1, row = []\<rparr>)"
    by (simp add: scripted_def next_handle_def next_status_def start_def)
  have h2: "sqlite3_extended_result_codes scripted 1 1
       \<lparr>statuses = [0], last_handle = 1, row = []\<rparr> =
     (0, \<lparr>statuses = [], last_handle = 1, row = []\<rparr>)"
    by (simp add: scripted_def next_status_def)
  have h3: "Connection_Create scripted ''db'' 6 64 (start [0, 0] []) =
     (Inr \<lparr>m_dbconn = 1\<rparr>,
      \<lparr>engine = \<lparr>statuses = [], last_handle = 1, row = []\<rparr>,
       calls = [Call_open_v2 (c_str ''db'') 70, Call_extended_result_codes 1 1],
       statementId = 0\<rparr>)"
    unfolding Connection_Create_eq [OF h1 h2]
    by (simp add: SQLITE_OK_def start_def)
  show ?thesis
    using Connection_Create_result [OF h1 h2 h3] h1 h2 h3 by blast
qed

section \<open>Binding text\<close>

text \<open>
  C6. Name the engine's answer to the native call: its status and the engine state it
  leaves. \<open>Bind\<close> of a \<open>std::string\<close> and of a \<open>std::string_view\<close> make one native call,
  \<open>sqlite3_bind_text64\<close> on the value's memory with the value's size as the length,
  \<open>SQLITE_TRANSIENT\<close> as the destructor and \<open>SQLITE_UTF8\<close> as the encoding; the bytes
  so designated are the value's characters, and the engine is left in the state in which
  that call left it. Each throws exactly when the status of its call is not
  \<open>SQLITE_OK\<close>, and what it throws is a \<open>SQLiteException\<close> holding that status, with the
  engine's \<open>sqlite3_errstr\<close> text of it as the message; otherwise it returns.
\<close>

theorem Bind_text_result:
  assumes "sqlite3_bind_text64 api stmt index (c_str s) (length s) SQLITE_TRANSIENT SQLITE_UTF8
             (engine w) = (rs, es)"
    and "sqlite3_bind_text64 api stmt index (sv_data v) (sv_size v) SQLITE_TRANSIENT SQLITE_UTF8
             (engine w) = (rv, ev)"
  shows "Bind_string api stmt index s w =
           (if rs \<noteq> SQLITE_OK then Inl (Thrown (SQLiteException rs (sqlite3_errstr api rs)))
            else Inr (),
            w\<lparr>engine := es,
              calls := calls w @
                [Call_bind_text64 stmt index (c_str s) (length s) SQLITE_TRANSIENT SQLITE_UTF8]\<rparr>) \<and>
         engine (snd (Bind_string api stmt index s w)) = es \<and>
         statementId (snd (Bind_string api stmt index s w)) = statementId w \<and>
         calls (snd (Bind_string api stmt index s w)) =
           calls w @ [Call_bind_text64 stmt index (c_str s) (length s) SQLITE_TRANSIENT SQLITE_UTF8] \<and>
         take (length s) (c_str s) = s \<and>
         (fst (Bind_string api stmt index s w) =
            Inl (Thrown (SQLiteException rs (sqlite3_errstr api rs)))) = (rs \<noteq> SQLITE_OK) \<and>
         (fst (Bind_string api stmt index s w) = Inr ()) = (rs = SQLITE_OK) \<and>
         Bind_string_view api stmt index v w =
           (if rv \<noteq> SQLITE_OK then Inl (Thrown (SQLiteException rv (sqlite3_errstr api rv)))
            else Inr (),
            w\<lparr>engine := ev,
              calls := calls w @
                [Call_bind_text64 stmt index (sv_data v) (sv_size v) SQLITE_TRANSIENT SQLITE_UTF8]\<rparr>) \<and>
         engine (snd (Bind_string_view api stmt index v w)) = ev \<and>
         statementId (snd (Bind_string_view api stmt index v w)) = statementId w \<and>
         calls (snd (Bind_string_view api stmt index v w)) =
           calls w @ [Call_bind_text64 stmt index (sv_data v) (sv_size v) SQLITE_TRANSIENT SQLITE_UTF8] \<and>
         sv_chars v = take (sv_size v) (sv_data v) \<and>
         (fst (Bind_string_view api stmt index v w) =
            Inl (Thrown (SQLiteException rv (sqlite3_errstr api rv)))) = (rv \<noteq> SQLITE_OK) \<and>
         (fst (Bind_string_view api stmt index v w) = Inr ()) = (rv = SQLITE_OK)"
  using assms
  by (simp add: Bind_string_def Bind_string_view_def native_def THROW_IF_SQLITE_FAILED_def
      THROW_SQLITE_def c_str_def sv_chars_def)

theorem Bind_text_result_witness:
  "sqlite3_bind_text64 scripted 1 1 (c_str ''abc'') (length ''abc'') SQLITE_TRANSIENT SQLITE_UTF8
     (engine (start [25, 0] [])) = (25, \<lparr>statuses = [0], last_handle = 0, row = []\<rparr>) \<and>
   sqlite3_bind_text64 scripted 1 1 (sv_data \<lparr>sv_data = ''abcdef'', sv_size = 3\<rparr>)
     (sv_size \<lparr>sv_data = ''abcdef'', sv_size = 3\<rparr>) SQLITE_TRANSIENT SQLITE_UTF8
     (engine (start [25, 0] [])) = (25, \<lparr>statuses = [0], last_handle = 0, row = []\<rparr>) \<and>
   Bind_string scripted 1 1 ''abc'' (start [25, 0] []) =
     (Inl (Thrown (SQLiteException 25 ''SQL logic error'')),
      \<lparr>engine = \<lparr>statuses = [0], last_handle = 0, row = []\<rparr>,
       calls = [Call_bind_text64 1 1 (c_str ''abc'') 3 SQLITE_TRANSIENT SQLITE_UTF8],
       statementId = 0\<rparr>) \<and>
   Bind_string_view scripted 1 1 \<lparr>sv_data = ''abcdef'', sv_size = 3\<rparr> (start [25, 0] []) =
     (Inl (Thrown (SQLiteException 25 ''SQL logic error'')),
      \<lparr>engine = \<lparr>statuses = [0], last_handle = 0, row = []\<rparr>,
       calls = [Call_bind_text64 1 1 ''abcdef'' 3 SQLITE_TRANSIENT SQLITE_UTF8],
       statementId = 0\<rparr>) \<and>
   sv_chars \<lparr>sv_data = ''abcdef'', sv_size = 3\<rparr> = ''abc''"
proof -
  have h1: "sqlite3_bind_text64 scripted 1 1 (c_str ''abc'') (length ''abc'') SQLITE_TRANSIENT
     SQLITE_UTF8 (engine (start [25, 0] [])) = (25, \<lparr>statuses = [0], last_handle = 0, row = []\<rparr>)"
    by (simp add: scripted_def next_status_def start_def)
  have h2: "sqlite3_bind_text64 scripted 1 1 (sv_data \<lparr>sv_data = ''abcdef'', sv_size = 3\<rparr>)
     (sv_size \<lparr>sv_data = ''abcdef'', sv_size = 3\<rparr>) SQLITE_TRANSIENT SQLITE_UTF8
     (engine (start [25, 0] [])) = (25, \<lparr>statuses = [0], last_handle = 0, row = []\<rparr>)"
    by (simp add: scripted_def next_status_def start_def)
  have e: "sqlite3_errstr scripted 25 = ''SQL logic error''" "(25 :: c_int) \<noteq> SQLITE_OK"
    by (simp_all add: scripted_def SQLITE_OK_def)
  have u: "\<And>c. (start [25, 0] [])\<lparr>engine := \<lparr>statuses = [0], last_handle = 0, row = []\<rparr>,
               calls := calls (start [25, 0] []) @ [c]\<rparr> =
     \<lparr>engine = \<lparr>statuses = [0], last_handle = 0, row = []\<rparr>, calls = [c], statementId = 0\<rparr>"
    by (simp add: start_def)
  note t = Bind_text_result [OF h1 h2]
  have a: "Bind_string scripted 1 1 ''abc'' (start [25, 0] []) =
     (Inl (Thrown (SQLiteException 25 ''SQL logic error'')),
      \<lparr>engine = \<lparr>statuses = [0], last_handle = 0, row = []\<rparr>,
       calls = [Call_bind_text64 1 1 (c_str ''abc'') 3 SQLITE_TRANSIENT SQLITE_UTF8],
       statementId = 0\<rparr>)"
    using t [THEN conjunct1] e u by simp
  have b: "Bind_string_view scripted 1 1 \<lparr>sv_data = ''abcdef'', sv_size = 3\<rparr> (start [25, 0] []) =
     (Inl (Thrown (SQLiteException 25 ''SQL logic error'')),
      \<lparr>engine = \<lparr>statuses = [0], last_handle = 0, row = []\<rparr>,
       calls = [Call_bind_text64 1 1 ''abcdef'' 3 SQLITE_TRANSIENT SQLITE_UTF8],
       statementId = 0\<rparr>)"
    using t e u by simp
  have c: "sv_chars \<lparr>sv_data = ''abcdef'', sv_size = 3\<rparr> = ''abc''"
    by (simp add: sv_chars_def)
  show ?thesis
    using h1 h2 a b c by blast
qed

section \<open>Null termination of the SQL text\<close>

lemma c_str_terminated: "c_str s ! length s = NUL"
  by (simp add: c_str_def)

lemma strlen_terminated:
  assumes "NUL \<in> set m"
  shows "strlen m < length m" and "m ! strlen m = NUL"
proof -
  have "takeWhile (\<lambda>c. c \<noteq> NUL) m \<noteq> m"
    using assms by auto
  moreover have "takeWhile (\<lambda>c. c \<noteq> NUL) m = take (strlen m) m"
    unfolding strlen_def by (rule takeWhile_eq_take)
  ultimately have "take (strlen m) m \<noteq> m" by simp
  then show l: "strlen m < length m"
    by (cases "strlen m < length m") simp_all
  with nth_length_takeWhile [of "\<lambda>c. c \<noteq> NUL" m] show "m ! strlen m = NUL"
    by (simp add: strlen_def)
qed

lemma Statement_ctor_eq:
  assumes "sv_size v < length (sv_data v)" and "sv_data v ! sv_size v = NUL"
    and "sqlite3_prepare_v3 api (m_dbconn conn) (sv_data v) (of_nat (sv_size v + 1))
             (if p then SQLITE_PREPARE_PERSISTENT else 0) (engine w) = ((rv, h), e')"
  shows "Statement_ctor api conn v p w =
     (if rv \<noteq> SQLITE_OK then Inl (THROW_SQLITE api rv)
      else Inr \<lparr>m_id = statementId w + 1, m_stmt = h, m_state = Prepared\<rparr>,
      w\<lparr>engine := e',
        calls := calls w @ [Call_prepare_v3 (m_dbconn conn) (sv_data v) (of_nat (sv_size v + 1))
                              (if p then SQLITE_PREPARE_PERSISTENT else 0)],
        statementId := statementId w + 1\<rparr>)"
  using assms
  by (simp add: Statement_ctor_def GetNextStatementId_def native_def THROW_IF_SQLITE_FAILED_def)

lemma Statement_ctor_prepares:
  assumes "sv_size v < length (sv_data v)" and "sv_data v ! sv_size v = NUL"
  shows "calls (snd (Statement_ctor api conn v p w)) =
           calls w @ [Call_prepare_v3 (m_dbconn conn) (sv_data v) (of_nat (sv_size v + 1))
                        (if p then SQLITE_PREPARE_PERSISTENT else 0)] \<and>
         fst (Statement_ctor api conn v p w) \<noteq> Inl AssertionFailed \<and>
         fst (Statement_ctor api conn v p w) \<noteq> Inl UndefinedBehaviour"
proof -
  obtain rv h e' where
    "sqlite3_prepare_v3 api (m_dbconn conn) (sv_data v) (of_nat (sv_size v + 1))
       (if p then SQLITE_PREPARE_PERSISTENT else 0) (engine w) = ((rv, h), e')"
    by (metis surj_pair)
  from Statement_ctor_eq [OF assms this] show ?thesis
    by (simp add: THROW_SQLITE_def)
qed

lemma sint_nByte:
  assumes "n + 1 < 2 ^ 31"
  shows "sint (of_nat (n + 1) :: c_int) = int n + 1"
proof -
  have "sint (of_nat (n + 1) :: c_int) = signed_take_bit 31 (int (n + 1))"
    unfolding signed_of_nat by simp
  also have "\<dots> = int (n + 1)"
  proof (rule signed_take_bit_int_eq_self)
    show "- (2 ^ 31) \<le> int (n + 1)" by simp
    from assms have "int (n + 1) < int (2 ^ 31)" by (simp only: of_nat_less_iff)
    then show "int (n + 1) < 2 ^ 31" by simp
  qed
  finally show ?thesis by simp
qed

text \<open>
  C8, as the code has it. Name the engine's answer to the prepare call of each overload
  of \<open>Statement::Create\<close>. Each overload makes that one native call and returns the
  statement, or throws the status; the assertion of the constructor holds there, for
  every input. For a \<open>std::string\<close> the buffer is the string's own, for a view whose
  memory holds its characters it is that of a copy of the viewed characters, for a
  \<open>char const*\<close> to null-terminated memory it is that memory. In each case, and whatever
  the size, the byte of the buffer at index \<open>size()\<close> is the null character. The length
  passed is \<open>size() + 1\<close> converted to \<open>int\<close>, which is \<open>size() + 1\<close> when this is below
  \<open>2 ^ 31\<close>.
\<close>

theorem Statement_Create_null_terminated:
  assumes "sv_size v \<le> length (sv_data v)" and "NUL \<in> set m"
    and "sqlite3_prepare_v3 api (m_dbconn conn) (c_str s) (of_nat (length s + 1))
           (if p then SQLITE_PREPARE_PERSISTENT else 0) (engine w) = ((rs, hs), es)"
    and "sqlite3_prepare_v3 api (m_dbconn conn) (c_str (sv_chars v)) (of_nat (sv_size v + 1))
           (if p then SQLITE_PREPARE_PERSISTENT else 0) (engine w) = ((rv, hv), ev)"
    and "sqlite3_prepare_v3 api (m_dbconn conn) m (of_nat (strlen m + 1))
           (if p then SQLITE_PREPARE_PERSISTENT else 0) (engine w) = ((rm, hm), em)"
  shows "Statement_Create_string api conn s p w =
           (if rs \<noteq> SQLITE_OK then Inl (Thrown (SQLiteException rs (sqlite3_errstr api rs)))
            else Inr \<lparr>m_id = statementId w + 1, m_stmt = hs, m_state = Prepared\<rparr>,
            w\<lparr>engine := es,
              calls := calls w @
                [Call_prepare_v3 (m_dbconn conn) (c_str s) (of_nat (length s + 1))
                   (if p then SQLITE_PREPARE_PERSISTENT else 0)],
              statementId := statementId w + 1\<rparr>) \<and>
         calls (snd (Statement_Create_string api conn s p w)) =
           calls w @ [Call_prepare_v3 (m_dbconn conn) (c_str s) (of_nat (length s + 1))
                        (if p then SQLITE_PREPARE_PERSISTENT else 0)] \<and>
         length (c_str s) = length s + 1 \<and>
         take (length s) (c_str s) = s \<and>
         c_str s ! length s = NUL \<and>
         (length s + 1 < 2 ^ 31 \<longrightarrow> sint (of_nat (length s + 1) :: c_int) = int (length s) + 1) \<and>
         fst (Statement_Create_string api conn s p w) \<noteq> Inl AssertionFailed \<and>
         fst (Statement_Create_string api conn s p w) \<noteq> Inl UndefinedBehaviour \<and>
         Statement_Create_view api conn v p w =
           (if rv \<noteq> SQLITE_OK then Inl (Thrown (SQLiteException rv (sqlite3_errstr api rv)))
            else Inr \<lparr>m_id = statementId w + 1, m_stmt = hv, m_state = Prepared\<rparr>,
            w\<lparr>engine := ev,
              calls := calls w @
                [Call_prepare_v3 (m_dbconn conn) (c_str (sv_chars v)) (of_nat (sv_size v + 1))
                   (if p then SQLITE_PREPARE_PERSISTENT else 0)],
              statementId := statementId w + 1\<rparr>) \<and>
         calls (snd (Statement_Create_view api conn v p w)) =
           calls w @ [Call_prepare_v3 (m_dbconn conn) (c_str (sv_chars v)) (of_nat (sv_size v + 1))
                        (if p then SQLITE_PREPARE_PERSISTENT else 0)] \<and>
         length (c_str (sv_chars v)) = sv_size v + 1 \<and>
         take (sv_size v) (c_str (sv_chars v)) = take (sv_size v) (sv_data v) \<and>
         c_str (sv_chars v) ! sv_size v = NUL \<and>
         (sv_size v + 1 < 2 ^ 31 \<longrightarrow>
            sint (of_nat (sv_size v + 1) :: c_int) = int (sv_size v) + 1) \<and>
         fst (Statement_Create_view api conn v p w) \<noteq> Inl AssertionFailed \<and>
         fst (Statement_Create_view api conn v p w) \<noteq> Inl UndefinedBehaviour \<and>
         Statement_Create_literal api conn m p w =
           (if rm \<noteq> SQLITE_OK then Inl (Thrown (SQLiteException rm (sqlite3_errstr api rm)))
            else Inr \<lparr>m_id = statementId w + 1, m_stmt = hm, m_state = Prepared\<rparr>,
            w\<lparr>engine := em,
              calls := calls w @
                [Call_prepare_v3 (m_dbconn conn) m (of_nat (strlen m + 1))
                   (if p then SQLITE_PREPARE_PERSISTENT else 0)],
              statementId := statementId w + 1\<rparr>) \<and>
         calls (snd (Statement_Create_literal api conn m p w)) =
           calls w @ [Call_prepare_v3 (m_dbconn conn) m (of_nat (strlen m + 1))
                        (if p then SQLITE_PREPARE_PERSISTENT else 0)] \<and>
         strlen m < length m \<and>
         m ! strlen m = NUL \<and>
         (strlen m + 1 < 2 ^ 31 \<longrightarrow> sint (of_nat (strlen m + 1) :: c_int) = int (strlen m) + 1) \<and>
         fst (Statement_Create_literal api conn m p w) \<noteq> Inl AssertionFailed \<and>
         fst (Statement_Create_literal api conn m p w) \<noteq> Inl UndefinedBehaviour"
proof -
  have len: "length (sv_chars v) = sv_size v"
    using assms(1) by (simp add: sv_chars_def)
  have S: "Statement_Create_string api conn s p w =
           (if rs \<noteq> SQLITE_OK then Inl (Thrown (SQLiteException rs (sqlite3_errstr api rs)))
            else Inr \<lparr>m_id = statementId w + 1, m_stmt = hs, m_state = Prepared\<rparr>,
            w\<lparr>engine := es,
              calls := calls w @
                [Call_prepare_v3 (m_dbconn conn) (c_str s) (of_nat (length s + 1))
                   (if p then SQLITE_PREPARE_PERSISTENT else 0)],
              statementId := statementId w + 1\<rparr>)"
    unfolding Statement_Create_string_eq [OF assms(3)] THROW_SQLITE_def ..
  from assms(4) len
  have "sqlite3_prepare_v3 api (m_dbconn conn) (c_str (sv_chars v))
           (of_nat (length (sv_chars v) + 1))
           (if p then SQLITE_PREPARE_PERSISTENT else 0) (engine w) = ((rv, hv), ev)"
    by simp
  from Statement_Create_string_eq [OF this]
  have V: "Statement_Create_view api conn v p w =
           (if rv \<noteq> SQLITE_OK then Inl (Thrown (SQLiteException rv (sqlite3_errstr api rv)))
            else Inr \<lparr>m_id = statementId w + 1, m_stmt = hv, m_state = Prepared\<rparr>,
            w\<lparr>engine := ev,
              calls := calls w @
                [Call_prepare_v3 (m_dbconn conn) (c_str (sv_chars v)) (of_nat (sv_size v + 1))
                   (if p then SQLITE_PREPARE_PERSISTENT else 0)],
              statementId := statementId w + 1\<rparr>)"
    using assms(1) len by (simp add: Statement_Create_view_def THROW_SQLITE_def)
  have lit: "sv_size (view_of_c_string m) < length (sv_data (view_of_c_string m))"
    "sv_data (view_of_c_string m) ! sv_size (view_of_c_string m) = NUL"
    using strlen_terminated [OF assms(2)] by (simp_all add: view_of_c_string_def)
  from assms(5)
  have "sqlite3_prepare_v3 api (m_dbconn conn) (sv_data (view_of_c_string m))
           (of_nat (sv_size (view_of_c_string m) + 1))
           (if p then SQLITE_PREPARE_PERSISTENT else 0) (engine w) = ((rm, hm), em)"
    by (simp add: view_of_c_string_def)
  from Statement_ctor_eq [OF lit this]
  have L: "Statement_Create_literal api conn m p w =
           (if rm \<noteq> SQLITE_OK then Inl (Thrown (SQLiteException rm (sqlite3_errstr api rm)))
            else Inr \<lparr>m_id = statementId w + 1, m_stmt = hm, m_state = Prepared\<rparr>,
            w\<lparr>engine := em,
              calls := calls w @
                [Call_prepare_v3 (m_dbconn conn) m (of_nat (strlen m + 1))
                   (if p then SQLITE_PREPARE_PERSISTENT else 0)],
              statementId := statementId w + 1\<rparr>)"
    using assms(2) by (simp add: Statement_Create_literal_def view_of_c_string_def THROW_SQLITE_def)
  have T: "c_str (sv_chars v) ! sv_size v = NUL"
    using c_str_terminated [of "sv_chars v"] len by simp
  have K: "take (sv_size v) (c_str (sv_chars v)) = take (sv_size v) (sv_data v)"
    "length (c_str (sv_chars v)) = sv_size v + 1"
    "length (c_str s) = length s + 1" "take (length s) (c_str s) = s"
    using len by (simp_all add: c_str_def sv_chars_def)
  have B: "length s + 1 < 2 ^ 31 \<longrightarrow> sint (of_nat (length s + 1) :: c_int) = int (length s) + 1"
    "sv_size v + 1 < 2 ^ 31 \<longrightarrow> sint (of_nat (sv_size v + 1) :: c_int) = int (sv_size v) + 1"
    "strlen m + 1 < 2 ^ 31 \<longrightarrow> sint (of_nat (strlen m + 1) :: c_int) = int (strlen m) + 1"
    using sint_nByte by blast+
  have fs: "fst (Statement_Create_string api conn s p w) \<noteq> Inl AssertionFailed"
    "fst (Statement_Create_string api conn s p w) \<noteq> Inl UndefinedBehaviour"
    "calls (snd (Statement_Create_string api conn s p w)) =
           calls w @ [Call_prepare_v3 (m_dbconn conn) (c_str s) (of_nat (length s + 1))
                        (if p then SQLITE_PREPARE_PERSISTENT else 0)]"
    unfolding S by simp_all
  have fv: "fst (Statement_Create_view api conn v p w) \<noteq> Inl AssertionFailed"
    "fst (Statement_Create_view api conn v p w) \<noteq> Inl UndefinedBehaviour"
    "calls (snd (Statement_Create_view api conn v p w)) =
           calls w @ [Call_prepare_v3 (m_dbconn conn) (c_str (sv_chars v)) (of_nat (sv_size v + 1))
                        (if p then SQLITE_PREPARE_PERSISTENT else 0)]"
    unfolding V by simp_all
  have fl: "fst (Statement_Create_literal api conn m p w) \<noteq> Inl AssertionFailed"
    "fst (Statement_Create_literal api conn m p w) \<noteq> Inl UndefinedBehaviour"
    "calls (snd (Statement_Create_literal api conn m p w)) =
           calls w @ [Call_prepare_v3 (m_dbconn conn) m (of_nat (strlen m + 1))
                        (if p then SQLITE_PREPARE_PERSISTENT else 0)]"
    unfolding L by simp_all
  show ?thesis
    using S V L T K B fs fv fl c_str_terminated [of s] strlen_terminated [OF assms(2)]
    by blast
qed

theorem Statement_Create_null_terminated_witness:
  "sv_size \<lparr>sv_data = ''SELECT 1; junk'', sv_size = 8\<rparr> \<le>
     length (sv_data \<lparr>sv_data = ''SELECT 1; junk'', sv_size = 8\<rparr>) \<and>
   NUL \<in> set (c_str ''SELECT 1'') \<and>
   length ''SELECT 1'' + 1 < (2 :: nat) ^ 31 \<and>
   sv_size \<lparr>sv_data = ''SELECT 1; junk'', sv_size = 8\<rparr> + 1 < (2 :: nat) ^ 31 \<and>
   strlen (c_str ''SELECT 1'') + 1 < (2 :: nat) ^ 31 \<and>
   Statement_Create_view scripted conn0 \<lparr>sv_data = ''SELECT 1; junk'', sv_size = 8\<rparr> False
      (start [0, 7] []) =
     (Inr stmt0,
      \<lparr>engine = \<lparr>statuses = [7], last_handle = 1, row = []\<rparr>,
       calls = [Call_prepare_v3 1 (c_str ''SELECT 1'') 9 0], statementId = 1\<rparr>) \<and>
   Statement_Create_literal scripted conn0 (c_str ''SELECT 1'') False (start [0, 7] []) =
     (Inr stmt0,
      \<lparr>engine = \<lparr>statuses = [7], last_handle = 1, row = []\<rparr>,
       calls = [Call_prepare_v3 1 (c_str ''SELECT 1'') 9 0], statementId = 1\<rparr>) \<and>
   Statement_Create_string scripted conn0 ''SELECT 1'' False (start [0, 7] []) =
     (Inr stmt0,
      \<lparr>engine = \<lparr>statuses = [7], last_handle = 1, row = []\<rparr>,
       calls = [Call_prepare_v3 1 (c_str ''SELECT 1'') 9 0], statementId = 1\<rparr>) \<and>
   sint (of_nat (length ''SELECT 1'' + 1) :: c_int) = 9 \<and>
   c_str ''SELECT 1'' ! 8 = NUL"
proof -
  let ?v = "\<lparr>sv_data = ''SELECT 1; junk'', sv_size = 8\<rparr>"
  let ?e = "\<lparr>statuses = [7], last_handle = 1, row = []\<rparr>"
  have h1: "sv_size ?v \<le> length (sv_data ?v)"
    by simp
  have h2: "NUL \<in> set (c_str ''SELECT 1'')"
    by (simp add: c_str_def)
  have n: "strlen (c_str ''SELECT 1'') = 8"
    by (simp add: strlen_def c_str_def NUL_def)
  have c: "sv_chars ?v = ''SELECT 1''"
    by (simp add: sv_chars_def)
  have b: "length ''SELECT 1'' + 1 < (2 :: nat) ^ 31" "sv_size ?v + 1 < (2 :: nat) ^ 31"
    "strlen (c_str ''SELECT 1'') + 1 < (2 :: nat) ^ 31"
    by (simp_all add: n)
  have h3: "sqlite3_prepare_v3 scripted (m_dbconn conn0) (c_str ''SELECT 1'')
       (of_nat (length ''SELECT 1'' + 1)) (if False then SQLITE_PREPARE_PERSISTENT else 0)
       (engine (start [0, 7] [])) = ((0, 1), ?e)"
    by (simp add: scripted_prepare next_handle_def next_status_def start_def)
  have h4: "sqlite3_prepare_v3 scripted (m_dbconn conn0) (c_str (sv_chars ?v))
       (of_nat (sv_size ?v + 1)) (if False then SQLITE_PREPARE_PERSISTENT else 0)
       (engine (start [0, 7] [])) = ((0, 1), ?e)"
    by (simp add: scripted_prepare next_handle_def next_status_def start_def)
  have h5: "sqlite3_prepare_v3 scripted (m_dbconn conn0) (c_str ''SELECT 1'')
       (of_nat (strlen (c_str ''SELECT 1'') + 1)) (if False then SQLITE_PREPARE_PERSISTENT else 0)
       (engine (start [0, 7] [])) = ((0, 1), ?e)"
    by (simp add: scripted_prepare next_handle_def next_status_def start_def)
  note t = Statement_Create_null_terminated [OF h1 h2 h3 h4 h5]
  have a1: "Statement_Create_view scripted conn0 ?v False (start [0, 7] []) =
     (Inr stmt0, \<lparr>engine = ?e, calls = [Call_prepare_v3 1 (c_str ''SELECT 1'') 9 0],
                   statementId = 1\<rparr>)"
    using t by (simp add: SQLITE_OK_def conn0_def stmt0_def start_def c)
  have a2: "Statement_Create_literal scripted conn0 (c_str ''SELECT 1'') False (start [0, 7] []) =
     (Inr stmt0, \<lparr>engine = ?e, calls = [Call_prepare_v3 1 (c_str ''SELECT 1'') 9 0],
                   statementId = 1\<rparr>)"
    using t by (simp add: SQLITE_OK_def conn0_def stmt0_def start_def n)
  have a3: "Statement_Create_string scripted conn0 ''SELECT 1'' False (start [0, 7] []) =
     (Inr stmt0, \<lparr>engine = ?e, calls = [Call_prepare_v3 1 (c_str ''SELECT 1'') 9 0],
                   statementId = 1\<rparr>)"
    using t by (simp add: SQLITE_OK_def conn0_def stmt0_def start_def)
  have a4: "sint (of_nat (length ''SELECT 1'' + 1) :: c_int) = 9"
    using t b(1) by simp
  have a5: "c_str ''SELECT 1'' ! 8 = NUL"
    by (simp add: c_str_def)
  show ?thesis
    using h1 h2 b a1 a2 a3 a4 a5 by blast
qed

text \<open>
  C8 as stated fails on the length: for a \<open>std::string\<close> of \<open>2 ^ 31 - 1\<close> characters,
  \<open>size() + 1\<close> is \<open>2 ^ 31\<close>, and the \<open>int\<close> passed to the prepare call is
  \<open>- (2 ^ 31)\<close>.
\<close>

theorem Statement_Create_length_counterexample:
  "calls (snd (Statement_Create_string scripted conn0 (replicate 2147483647 (CHR ''x'')) False
      (start [] []))) =
     [Call_prepare_v3 1 (c_str (replicate 2147483647 (CHR ''x''))) 0x80000000 0] \<and>
   sint (0x80000000 :: c_int) = - 2147483648 \<and>
   int (length (replicate 2147483647 (CHR ''x''))) + 1 = 2147483648"
proof -
  let ?s = "replicate 2147483647 (CHR ''x'')"
  have l: "length ?s = 2147483647"
    by (rule length_replicate)
  have v: "sv_size (view_of_string ?s) < length (sv_data (view_of_string ?s))"
    "sv_data (view_of_string ?s) ! sv_size (view_of_string ?s) = NUL"
    unfolding view_of_string_def c_str_def by (simp_all only: string_view.simps length_append
        length_Cons list.size nth_append_length)
  have "calls (snd (Statement_Create_string scripted conn0 ?s False (start [] []))) =
     calls (start [] []) @
     [Call_prepare_v3 (m_dbconn conn0) (sv_data (view_of_string ?s))
        (of_nat (sv_size (view_of_string ?s) + 1)) (if False then SQLITE_PREPARE_PERSISTENT else 0)]"
    unfolding Statement_Create_string_def
    using Statement_ctor_prepares [OF v, of scripted conn0 False "start [] []"] by blast
  also have "sv_data (view_of_string ?s) = c_str ?s"
    by (simp only: view_of_string_def string_view.simps)
  also have "sv_size (view_of_string ?s) = 2147483647"
    by (simp only: view_of_string_def string_view.simps l)
  finally have a: "calls (snd (Statement_Create_string scripted conn0 ?s False (start [] []))) =
     [Call_prepare_v3 1 (c_str ?s) 0x80000000 0]"
    by (simp add: start_def conn0_def)
  have b: "sint (0x80000000 :: c_int) = - 2147483648"
    by simp
  have c: "int (length ?s) + 1 = 2147483648"
    by (simp only: l)
  show ?thesis
    using a b c by blast
qed

section \<open>Reading a text column\<close>

lemma takeWhile_c_str:
  "takeWhile (\<lambda>c. c \<noteq> NUL) (c_str txt) = takeWhile (\<lambda>c. c \<noteq> NUL) txt"
  by (induction "txt") (simp_all add: c_str_def)

lemma takeWhile_no_NUL:
  "NUL \<notin> set txt \<Longrightarrow> takeWhile (\<lambda>c. c \<noteq> NUL) txt = txt"
  by (induction "txt") auto

text \<open>
  C9, as the code has it. Name the engine's answers to the type accessor and, after it,
  to the text accessor. \<open>GetColumnIsNull\<close> makes the first call and returns true exactly
  when the type of the column is \<open>SQLITE_NULL\<close>. \<open>GetColumn\<close> for \<open>std::string\<close>, called
  next, makes the second call and checks nothing: it has no defined behaviour exactly
  when the pointer returned is null or the memory there holds no null character, and
  otherwise returns the bytes of that memory before the first null character. For the
  memory of a text followed by its terminator these are the bytes of the text before its
  first null character, hence the whole text when it holds none. Only for an engine
  whose text accessor returns a null pointer exactly for a column of type \<open>SQLITE_NULL\<close>,
  and null-terminated memory otherwise, is the undefined case exactly the one in which
  \<open>GetColumnIsNull\<close> returned true.
\<close>

theorem GetColumn_string_result:
  assumes "sqlite3_column_type api (m_stmt st) i (engine w) = (ty, e1)"
    and "sqlite3_column_text api (m_stmt st) i e1 = (p, e2)"
  shows "Statement_GetColumnIsNull api st i w =
           (ty = SQLITE_NULL, w\<lparr>engine := e1, calls := calls w @ [Call_column_type (m_stmt st) i]\<rparr>) \<and>
         GetColumn_string api (m_stmt st) i (snd (Statement_GetColumnIsNull api st i w)) =
           (case p of
              None \<Rightarrow> Inl UndefinedBehaviour
            | Some m \<Rightarrow> if NUL \<in> set m then Inr (takeWhile (\<lambda>c. c \<noteq> NUL) m)
                        else Inl UndefinedBehaviour,
            w\<lparr>engine := e2,
              calls := calls w @ [Call_column_type (m_stmt st) i, Call_column_text (m_stmt st) i]\<rparr>) \<and>
         (fst (GetColumn_string api (m_stmt st) i (snd (Statement_GetColumnIsNull api st i w))) =
            Inl UndefinedBehaviour) = (p = None \<or> (\<exists>m. p = Some m \<and> NUL \<notin> set m)) \<and>
         (\<forall>txt. p = Some (c_str txt) \<longrightarrow>
            fst (GetColumn_string api (m_stmt st) i (snd (Statement_GetColumnIsNull api st i w))) =
              Inr (takeWhile (\<lambda>c. c \<noteq> NUL) txt)) \<and>
         (\<forall>txt. p = Some (c_str txt) \<and> NUL \<notin> set txt \<longrightarrow>
            fst (GetColumn_string api (m_stmt st) i (snd (Statement_GetColumnIsNull api st i w))) =
              Inr txt) \<and>
         ((p = None) = (ty = SQLITE_NULL) \<and> (\<forall>m. p = Some m \<longrightarrow> NUL \<in> set m) \<longrightarrow>
            (fst (GetColumn_string api (m_stmt st) i (snd (Statement_GetColumnIsNull api st i w))) =
               Inl UndefinedBehaviour) = fst (Statement_GetColumnIsNull api st i w))"
proof -
  let ?w1 = "w\<lparr>engine := e1, calls := calls w @ [Call_column_type (m_stmt st) i]\<rparr>"
  have n: "Statement_GetColumnIsNull api st i w = (ty = SQLITE_NULL, ?w1)"
    using assms(1) by (simp add: Statement_GetColumnIsNull_def native_def)
  have g: "GetColumn_string api (m_stmt st) i ?w1 =
    (case p of None \<Rightarrow> Inl UndefinedBehaviour
     | Some m \<Rightarrow> if NUL \<in> set m then Inr (takeWhile (\<lambda>c. c \<noteq> NUL) m) else Inl UndefinedBehaviour,
     w\<lparr>engine := e2,
       calls := calls w @ [Call_column_type (m_stmt st) i, Call_column_text (m_stmt st) i]\<rparr>)"
    using assms(2) by (simp add: GetColumn_string_def native_def split: option.splits)
  have c: "\<And>txt. NUL \<in> set (c_str txt)"
    by (simp add: c_str_def)
  show ?thesis
  proof (cases p)
    case None
    with n g show ?thesis by simp
  next
    case (Some m)
    with n g c show ?thesis
      by (auto simp: takeWhile_c_str takeWhile_no_NUL)
  qed
qed

theorem GetColumn_string_result_witness:
  "sqlite3_column_type scripted (m_stmt stmt0) 0 (engine (start [] [Some ''abc''])) =
     (3, \<lparr>statuses = [], last_handle = 0, row = [Some ''abc'']\<rparr>) \<and>
   sqlite3_column_text scripted (m_stmt stmt0) 0 \<lparr>statuses = [], last_handle = 0, row = [Some ''abc'']\<rparr> =
     (Some (c_str ''abc''), \<lparr>statuses = [], last_handle = 0, row = [Some ''abc'']\<rparr>) \<and>
   (Some (c_str ''abc'') = None) = ((3 :: c_int) = SQLITE_NULL) \<and>
   NUL \<in> set (c_str ''abc'') \<and> NUL \<notin> set ''abc'' \<and>
   Statement_GetColumnIsNull scripted stmt0 0 (start [] [Some ''abc'']) =
     (False, \<lparr>engine = \<lparr>statuses = [], last_handle = 0, row = [Some ''abc'']\<rparr>,
               calls = [Call_column_type 1 0], statementId = 0\<rparr>) \<and>
   GetColumn_string scripted (m_stmt stmt0) 0
          \<lparr>engine = \<lparr>statuses = [], last_handle = 0, row = [Some ''abc'']\<rparr>,
             calls = [Call_column_type 1 0], statementId = 0\<rparr> =
     (Inr ''abc'', \<lparr>engine = \<lparr>statuses = [], last_handle = 0, row = [Some ''abc'']\<rparr>,
                    calls = [Call_column_type 1 0, Call_column_text 1 0], statementId = 0\<rparr>) \<and>
   sqlite3_column_type scripted (m_stmt stmt0) 0 (engine (start [] [None])) =
     (5, \<lparr>statuses = [], last_handle = 0, row = [None]\<rparr>) \<and>
   sqlite3_column_text scripted (m_stmt stmt0) 0 \<lparr>statuses = [], last_handle = 0, row = [None]\<rparr> =
     (None, \<lparr>statuses = [], last_handle = 0, row = [None]\<rparr>) \<and>
   (5 :: c_int) = SQLITE_NULL \<and>
   Statement_GetColumnIsNull scripted stmt0 0 (start [] [None]) =
     (True, \<lparr>engine = \<lparr>statuses = [], last_handle = 0, row = [None]\<rparr>,
              calls = [Call_column_type 1 0], statementId = 0\<rparr>) \<and>
   fst (GetColumn_string scripted (m_stmt stmt0) 0
          \<lparr>engine = \<lparr>statuses = [], last_handle = 0, row = [None]\<rparr>,
             calls = [Call_column_type 1 0], statementId = 0\<rparr>) = Inl UndefinedBehaviour"
proof -
  let ?e = "\<lparr>statuses = [], last_handle = 0, row = [Some ''abc'']\<rparr>"
  let ?n = "\<lparr>statuses = [], last_handle = 0, row = [None]\<rparr>"
  have h1: "sqlite3_column_type scripted (m_stmt stmt0) 0 (engine (start [] [Some ''abc''])) = (3, ?e)"
    by (simp add: scripted_def column_of_def start_def)
  have h2: "sqlite3_column_text scripted (m_stmt stmt0) 0 ?e = (Some (c_str ''abc''), ?e)"
    by (simp add: scripted_def column_of_def)
  have h3: "(Some (c_str ''abc'') = None) = ((3 :: c_int) = SQLITE_NULL)"
    by (simp add: SQLITE_NULL_def)
  have n: "NUL \<in> set (c_str ''abc'')" "NUL \<notin> set ''abc''"
    by (simp_all add: c_str_def NUL_def)
  have u: "(3 :: c_int) \<noteq> SQLITE_NULL" "m_stmt stmt0 = 1"
    "(start [] [Some ''abc''])\<lparr>engine := ?e,
        calls := calls (start [] [Some ''abc'']) @ [Call_column_type 1 0]\<rparr> =
      \<lparr>engine = ?e, calls = [Call_column_type 1 0], statementId = 0\<rparr>"
    "(start [] [Some ''abc''])\<lparr>engine := ?e,
        calls := calls (start [] [Some ''abc'']) @ [Call_column_type 1 0, Call_column_text 1 0]\<rparr> =
      \<lparr>engine = ?e, calls = [Call_column_type 1 0, Call_column_text 1 0], statementId = 0\<rparr>"
    by (simp_all add: SQLITE_NULL_def stmt0_def start_def)
  note t = GetColumn_string_result [OF h1 h2]
  have a1: "Statement_GetColumnIsNull scripted stmt0 0 (start [] [Some ''abc'']) =
     (False, \<lparr>engine = ?e, calls = [Call_column_type 1 0], statementId = 0\<rparr>)"
    using t [THEN conjunct1] u by simp
  have a2: "GetColumn_string scripted (m_stmt stmt0) 0
       \<lparr>engine = ?e, calls = [Call_column_type 1 0], statementId = 0\<rparr> =
     (Inr ''abc'', \<lparr>engine = ?e, calls = [Call_column_type 1 0, Call_column_text 1 0],
                    statementId = 0\<rparr>)"
    using t [THEN conjunct2, THEN conjunct1] a1 u n
    by (simp add: c_str_def NUL_def)
  have k1: "sqlite3_column_type scripted (m_stmt stmt0) 0 (engine (start [] [None])) = (5, ?n)"
    by (simp add: scripted_def column_of_def start_def SQLITE_NULL_def)
  have k2: "sqlite3_column_text scripted (m_stmt stmt0) 0 ?n = (None, ?n)"
    by (simp add: scripted_def column_of_def)
  have k: "(5 :: c_int) = SQLITE_NULL"
    by (simp add: SQLITE_NULL_def)
  have v: "(start [] [None])\<lparr>engine := ?n,
        calls := calls (start [] [None]) @ [Call_column_type 1 0]\<rparr> =
      \<lparr>engine = ?n, calls = [Call_column_type 1 0], statementId = 0\<rparr>"
    by (simp add: start_def)
  note s = GetColumn_string_result [OF k1 k2]
  have b1: "Statement_GetColumnIsNull scripted stmt0 0 (start [] [None]) =
     (True, \<lparr>engine = ?n, calls = [Call_column_type 1 0], statementId = 0\<rparr>)"
    using s [THEN conjunct1] k v u(2) by simp
  have b2: "fst (GetColumn_string scripted (m_stmt stmt0) 0
       \<lparr>engine = ?n, calls = [Call_column_type 1 0], statementId = 0\<rparr>) = Inl UndefinedBehaviour"
    using s [THEN conjunct2, THEN conjunct1] b1 by simp
  from h1 h2 h3 n a1 a2 k1 k2 k b1 b2 show ?thesis
    by blast
qed

text \<open>
  C9 as stated fails twice. On the value returned: for a text column holding the three
  bytes \<open>a\<close>, null, \<open>b\<close>, \<open>GetColumnIsNull\<close> is false and \<open>GetColumn\<close> returns the one byte
  \<open>a\<close>. On the null pointer: for a column holding \<open>abc\<close> and an engine that cannot
  allocate its text, \<open>GetColumnIsNull\<close> is false and \<open>GetColumn\<close> builds the string from
  a null pointer.
\<close>

theorem GetColumn_string_counterexample:
  "column_of (engine (start [] [Some [CHR ''a'', NUL, CHR ''b'']])) 0 =
     Some [CHR ''a'', NUL, CHR ''b''] \<and>
   \<not> fst (Statement_GetColumnIsNull scripted stmt0 0 (start [] [Some [CHR ''a'', NUL, CHR ''b'']])) \<and>
   fst (GetColumn_string scripted (m_stmt stmt0) 0
          (snd (Statement_GetColumnIsNull scripted stmt0 0
                  (start [] [Some [CHR ''a'', NUL, CHR ''b'']])))) = Inr ''a'' \<and>
   ''a'' \<noteq> [CHR ''a'', NUL, CHR ''b''] \<and>
   sqlite3_column_type out_of_memory (m_stmt stmt0) 0 (engine (start [] [Some ''abc''])) =
     (3, engine (start [] [Some ''abc''])) \<and>
   (3 :: c_int) \<noteq> SQLITE_NULL \<and>
   \<not> fst (Statement_GetColumnIsNull out_of_memory stmt0 0 (start [] [Some ''abc''])) \<and>
   sqlite3_column_text out_of_memory (m_stmt stmt0) 0 (engine (start [] [Some ''abc''])) =
     (None, engine (start [] [Some ''abc''])) \<and>
   fst (GetColumn_string out_of_memory (m_stmt stmt0) 0
          (snd (Statement_GetColumnIsNull out_of_memory stmt0 0 (start [] [Some ''abc''])))) =
     Inl UndefinedBehaviour"
  by (simp add: Statement_GetColumnIsNull_def GetColumn_string_def native_def scripted_def
      out_of_memory_def column_of_def start_def stmt0_def SQLITE_NULL_def c_str_def NUL_def)

section \<open>The statements of a savepoint\<close>

lemma Savepoint_do_keeps:
  assumes "Savepoint_do api c sp w = (r, sp1, w1)"
  shows "map m_stmt (Savepoint_statements sp1) = map m_stmt (Savepoint_statements sp) \<and>
         map m_id (Savepoint_statements sp1) = map m_id (Savepoint_statements sp)"
  using assms
  by (cases c)
     (auto simp: Savepoint_Commit_def Savepoint_Rollback_def Statement_Step_def native_def
        Savepoint_statements_def split: if_splits prod.splits sum.splits)

lemma Savepoint_calls_keeps:
  "Savepoint_calls api cs sp w = (r, sp', w') \<Longrightarrow>
     map m_stmt (Savepoint_statements sp') = map m_stmt (Savepoint_statements sp) \<and>
     map m_id (Savepoint_statements sp') = map m_id (Savepoint_statements sp)"
proof (induction cs arbitrary: sp w)
  case Nil
  then show ?case by simp
next
  case (Cons c cs)
  obtain r1 sp1 w1 where d: "Savepoint_do api c sp w = (r1, sp1, w1)"
    by (cases "Savepoint_do api c sp w")
  note k = Savepoint_do_keeps [OF d]
  show ?case
  proof (cases r1)
    case (Inl f)
    with Cons.prems d have "sp' = sp1" by simp
    with k show ?thesis by simp
  next
    case (Inr u)
    with Cons.prems d have "Savepoint_calls api cs sp1 w1 = (r, sp', w')" by simp
    from Cons.IH [OF this] k show ?thesis by simp
  qed
qed

text \<open>
  C10, as the code has it. A savepoint that \<open>Savepoint::Create\<close> returns holds two
  statements: the one \<open>Statement::Create\<close> returned for \<open>ROLLBACK TO [name]\<close> and the one
  it returned for \<open>RELEASE [name]\<close>, each created once, after the statement for
  \<open>SAVEPOINT [name]\<close>, which the constructor steps and the savepoint does not hold.
  Through every sequence of \<open>Commit()\<close> and \<open>Rollback()\<close> calls the savepoint keeps the
  handles and the identifiers of these two statements.
\<close>

theorem Savepoint_holds_rollback_commit:
  assumes "Savepoint_Create api conn name w = (Inr sp, w')"
    and "Savepoint_calls api cs sp w' = (r, sp', w'')"
  shows "(\<exists>begin w1 w2 w3.
            Statement_Create_string api conn (''SAVEPOINT ['' @ name @ '']'') False w =
              (Inr begin, w1) \<and>
            Statement_Create_string api conn (''ROLLBACK TO ['' @ name @ '']'') True w1 =
              (Inr (m_rollback sp), w2) \<and>
            Statement_Create_string api conn (''RELEASE ['' @ name @ '']'') True w2 =
              (Inr (m_commit sp), w3) \<and>
            snd (snd (Statement_Step api begin False w3)) = w' \<and>
            calls w' = calls w3 @ [Call_step (m_stmt begin)]) \<and>
         Savepoint_statements sp = [m_rollback sp, m_commit sp] \<and>
         map m_stmt (Savepoint_statements sp') = map m_stmt (Savepoint_statements sp) \<and>
         map m_id (Savepoint_statements sp') = map m_id (Savepoint_statements sp)"
proof -
  have "\<exists>begin w1 w2 w3.
            Statement_Create_string api conn (''SAVEPOINT ['' @ name @ '']'') False w =
              (Inr begin, w1) \<and>
            Statement_Create_string api conn (''ROLLBACK TO ['' @ name @ '']'') True w1 =
              (Inr (m_rollback sp), w2) \<and>
            Statement_Create_string api conn (''RELEASE ['' @ name @ '']'') True w2 =
              (Inr (m_commit sp), w3) \<and>
            snd (snd (Statement_Step api begin False w3)) = w' \<and>
            calls w' = calls w3 @ [Call_step (m_stmt begin)]"
    using assms(1) unfolding Savepoint_Create_def Savepoint_ctor_def
    by (auto simp: Statement_Step_def native_def split: prod.splits sum.splits if_splits)
  with Savepoint_calls_keeps [OF assms(2)] show ?thesis
    by (simp add: Savepoint_statements_def)
qed

lemma scripted_Savepoint_Create:
  "Savepoint_Create scripted conn0 ''s1'' (start (0 # 0 # 0 # 101 # rest) []) =
     (Inr sp0,
      \<lparr>engine = \<lparr>statuses = rest, last_handle = 3, row = []\<rparr>,
       calls = [Call_prepare_v3 1 (c_str ''SAVEPOINT [s1]'') 15 0,
                Call_prepare_v3 1 (c_str ''ROLLBACK TO [s1]'') 17 SQLITE_PREPARE_PERSISTENT,
                Call_prepare_v3 1 (c_str ''RELEASE [s1]'') 13 SQLITE_PREPARE_PERSISTENT,
                Call_step 1],
       statementId = 3\<rparr>)"
  by (simp add: Savepoint_Create_def Savepoint_ctor_def Statement_Create_string_def
      Statement_ctor_def GetNextStatementId_def view_of_string_def c_str_def native_def
      THROW_IF_SQLITE_FAILED_def Statement_Step_def scripted_def next_handle_def next_status_def
      start_def conn0_def sp0_def SQLITE_OK_def SQLITE_ROW_def SQLITE_DONE_def)

theorem Savepoint_holds_rollback_commit_witness:
  "Savepoint_Create scripted conn0 ''s1'' (start [0, 0, 0, 101, 101] []) =
     (Inr sp0,
      \<lparr>engine = \<lparr>statuses = [101], last_handle = 3, row = []\<rparr>,
       calls = [Call_prepare_v3 1 (c_str ''SAVEPOINT [s1]'') 15 0,
                Call_prepare_v3 1 (c_str ''ROLLBACK TO [s1]'') 17 SQLITE_PREPARE_PERSISTENT,
                Call_prepare_v3 1 (c_str ''RELEASE [s1]'') 13 SQLITE_PREPARE_PERSISTENT,
                Call_step 1],
       statementId = 3\<rparr>) \<and>
   Savepoint_calls scripted [Do_Commit, Do_Rollback] sp0
      \<lparr>engine = \<lparr>statuses = [101], last_handle = 3, row = []\<rparr>,
       calls = [Call_prepare_v3 1 (c_str ''SAVEPOINT [s1]'') 15 0,
                Call_prepare_v3 1 (c_str ''ROLLBACK TO [s1]'') 17 SQLITE_PREPARE_PERSISTENT,
                Call_prepare_v3 1 (c_str ''RELEASE [s1]'') 13 SQLITE_PREPARE_PERSISTENT,
                Call_step 1],
       statementId = 3\<rparr> =
     (Inr (), sp0\<lparr>m_commit := (m_commit sp0)\<lparr>m_state := Completed\<rparr>, m_inProgress := False\<rparr>,
      \<lparr>engine = \<lparr>statuses = [], last_handle = 3, row = []\<rparr>,
       calls = [Call_prepare_v3 1 (c_str ''SAVEPOINT [s1]'') 15 0,
                Call_prepare_v3 1 (c_str ''ROLLBACK TO [s1]'') 17 SQLITE_PREPARE_PERSISTENT,
                Call_prepare_v3 1 (c_str ''RELEASE [s1]'') 13 SQLITE_PREPARE_PERSISTENT,
                Call_step 1, Call_step 3],
       statementId = 3\<rparr>) \<and>
   map m_stmt (Savepoint_statements
     (sp0\<lparr>m_commit := (m_commit sp0)\<lparr>m_state := Completed\<rparr>, m_inProgress := False\<rparr>)) = [2, 3]"
proof -
  note h1 = scripted_Savepoint_Create [of "[101]"]
  have h2: "Savepoint_calls scripted [Do_Commit, Do_Rollback] sp0
      \<lparr>engine = \<lparr>statuses = [101], last_handle = 3, row = []\<rparr>,
       calls = [Call_prepare_v3 1 (c_str ''SAVEPOINT [s1]'') 15 0,
                Call_prepare_v3 1 (c_str ''ROLLBACK TO [s1]'') 17 SQLITE_PREPARE_PERSISTENT,
                Call_prepare_v3 1 (c_str ''RELEASE [s1]'') 13 SQLITE_PREPARE_PERSISTENT,
                Call_step 1],
       statementId = 3\<rparr> =
     (Inr (), sp0\<lparr>m_commit := (m_commit sp0)\<lparr>m_state := Completed\<rparr>, m_inProgress := False\<rparr>,
      \<lparr>engine = \<lparr>statuses = [], last_handle = 3, row = []\<rparr>,
       calls = [Call_prepare_v3 1 (c_str ''SAVEPOINT [s1]'') 15 0,
                Call_prepare_v3 1 (c_str ''ROLLBACK TO [s1]'') 17 SQLITE_PREPARE_PERSISTENT,
                Call_prepare_v3 1 (c_str ''RELEASE [s1]'') 13 SQLITE_PREPARE_PERSISTENT,
                Call_step 1, Call_step 3],
       statementId = 3\<rparr>)"
    by (simp add: Savepoint_Commit_def Savepoint_Rollback_def Statement_Step_def native_def
        scripted_step next_status_def sp0_def SQLITE_ROW_def SQLITE_DONE_def)
  have s: "map m_stmt (Savepoint_statements sp0) = [2, 3]"
    by (simp add: Savepoint_statements_def sp0_def)
  from Savepoint_holds_rollback_commit [OF h1 h2] s
  have "map m_stmt (Savepoint_statements
     (sp0\<lparr>m_commit := (m_commit sp0)\<lparr>m_state := Completed\<rparr>, m_inProgress := False\<rparr>)) = [2, 3]"
    by simp
  with h1 h2 show ?thesis by blast
qed

text \<open>
  C10 as stated fails on the first statement: the savepoint created for the name \<open>s1\<close>
  holds two statements, with the handles 2 and 3, and the statement prepared from
  \<open>SAVEPOINT [s1]\<close>, with the handle 1, is not among them.
\<close>

theorem Savepoint_holds_three_counterexample:
  "fst (Statement_Create_string scripted conn0 ''SAVEPOINT [s1]'' False (start [0, 0, 0, 101] [])) =
     Inr stmt0 \<and>
   fst (Savepoint_Create scripted conn0 ''s1'' (start [0, 0, 0, 101] [])) = Inr sp0 \<and>
   map m_stmt (Savepoint_statements sp0) = [2, 3] \<and>
   length (Savepoint_statements sp0) = 2 \<and>
   m_stmt stmt0 \<notin> set (map m_stmt (Savepoint_statements sp0))"
proof -
  have a: "fst (Statement_Create_string scripted conn0 ''SAVEPOINT [s1]'' False
      (start [0, 0, 0, 101] [])) = Inr stmt0"
    by (simp add: Statement_Create_string_def Statement_ctor_def GetNextStatementId_def
        view_of_string_def c_str_def native_def THROW_IF_SQLITE_FAILED_def scripted_def
        next_handle_def next_status_def start_def conn0_def stmt0_def SQLITE_OK_def)
  have b: "fst (Savepoint_Create scripted conn0 ''s1'' (start [0, 0, 0, 101] [])) = Inr sp0"
    by (simp add: scripted_Savepoint_Create)
  have c: "map m_stmt (Savepoint_statements sp0) = [2, 3]"
    "length (Savepoint_statements sp0) = 2"
    "m_stmt stmt0 \<notin> set (map m_stmt (Savepoint_statements sp0))"
    by (simp_all add: Savepoint_statements_def sp0_def stmt0_def)
  show ?thesis
    using a b c by blast
qed

end
